theory Spec2Isabelle
  imports Complex_Main "HOL-Library.Sublist"
begin

section \<open>Data model (shop/models.py)\<close>

text \<open>
  The persistent store is a record of tables, each table a list of rows in the order the
  database delivers them. Primary keys and foreign keys are natural numbers; a nullable
  column is an \<open>option\<close>. Strings are byte lists (UTF-8).
\<close>

datatype category_type = Container | Direct | Auto

record category =
  cat_id :: nat
  cat_parent :: "nat option"
  cat_type :: category_type

record product =
  p_id :: nat
  p_name :: string
  p_description :: string
  p_sku :: string
  p_model :: string
  p_category :: nat
  p_price :: "rat option"
  p_price_toman :: rat
  p_price_usd :: "rat option"
  p_is_active :: bool
  p_is_new_arrival :: bool
  p_created_at :: int

text \<open>\<open>Attribute\<close>: the global registry, \<open>key\<close> is unique.\<close>

record attribute =
  attr_id :: nat
  attr_key :: string

text \<open>\<open>NewAttributeValue\<close>: predefined choices, unique per (attribute, value).\<close>

record new_attribute_value =
  nav_id :: nat
  nav_attribute :: nat
  nav_value :: string

text \<open>\<open>ProductAttributeValue\<close>: the flexible store, unique per (product, attribute).\<close>

record product_attribute_value =
  pav_product :: nat
  pav_attribute :: nat
  pav_attribute_value :: "nat option"
  pav_custom_value :: "string option"

text \<open>\<open>ProductAttribute\<close>: the legacy store, free key and value.\<close>

record product_attribute =
  pa_product :: nat
  pa_key :: string
  pa_value :: string

record category_attribute =
  ca_category :: nat
  ca_key :: string

record db =
  categories :: "category list"
  products :: "product list"
  attributes :: "attribute list"
  new_attribute_values :: "new_attribute_value list"
  product_attribute_values :: "product_attribute_value list"
  legacy_attributes :: "product_attribute list"
  category_attributes :: "category_attribute list"

section \<open>Errors\<close>

text \<open>Exceptions of the interpreter, of the source and of the libraries it calls, as values.\<close>

datatype error =
    DoesNotExist | MultipleObjectsReturned | ValueError | TypeError | FieldError
  | ValidationError | OverflowError | ZeroDivisionError | EmptyPage | NotFound
  | CategoryNotFound | RecursionError

section \<open>Category tree\<close>

text \<open>\<open>self.subcategories.all()\<close>: the rows whose \<open>parent\<close> is this category.\<close>

definition subcategories :: "db \<Rightarrow> category \<Rightarrow> category list" where
  "subcategories d c = filter (\<lambda>s. cat_parent s = Some (cat_id c)) (categories d)"

text \<open>\<open>self.product_set.filter(is_active=True)\<close>.\<close>

definition direct_products :: "db \<Rightarrow> category \<Rightarrow> product list" where
  "direct_products d c =
     filter (\<lambda>p. p_category p = cat_id c \<and> p_is_active p) (products d)"

text \<open>
  \<open>Category.get_effective_category_type\<close>: a stored type other than \<open>auto\<close> is returned
  as it is; \<open>auto\<close> is resolved from the presence of subcategories and of active direct
  products, in the source's branch order.
\<close>

definition get_effective_category_type :: "db \<Rightarrow> category \<Rightarrow> category_type" where
  "get_effective_category_type d c =
     (if cat_type c \<noteq> Auto then cat_type c
      else
        let has_subcategories = (subcategories d c \<noteq> []);
            has_direct_products = (direct_products d c \<noteq> [])
        in if has_subcategories \<and> \<not> has_direct_products then Container
           else if \<not> has_subcategories \<and> has_direct_products then Direct
           else if has_subcategories \<and> has_direct_products then Container
           else Direct)"






definition empty_db :: db where
  "empty_db = \<lparr>categories = [], products = [], attributes = [],
     new_attribute_values = [], product_attribute_values = [],
     legacy_attributes = [], category_attributes = []\<rparr>"







section \<open>Attribute resolver\<close>

text \<open>
  \<open>Model.objects.get(...)\<close>: the single matching row; \<open>DoesNotExist\<close> when there is
  none, \<open>MultipleObjectsReturned\<close> when there are several.
\<close>

definition objects_get :: "('a \<Rightarrow> bool) \<Rightarrow> 'a list \<Rightarrow> error + 'a" where
  "objects_get P rows =
     (case filter P rows of
        [] \<Rightarrow> Inl DoesNotExist
      | [x] \<Rightarrow> Inr x
      | _ \<Rightarrow> Inl MultipleObjectsReturned)"

text \<open>
  \<open>ProductAttributeValue.get_display_value\<close>:
  \<^verbatim>\<open>
  if self.attribute_value:
      return self.attribute_value.value
  return self.custom_value or ''
  \<close>
  Reading \<open>self.attribute_value\<close> follows the foreign key into \<open>NewAttributeValue\<close>.
\<close>

definition get_display_value :: "db \<Rightarrow> product_attribute_value \<Rightarrow> error + string" where
  "get_display_value d r =
     (case pav_attribute_value r of
        Some i \<Rightarrow>
          (case objects_get (\<lambda>n. nav_id n = i) (new_attribute_values d) of
             Inl e \<Rightarrow> Inl e
           | Inr n \<Rightarrow> Inr (nav_value n))
      | None \<Rightarrow>
          Inr (case pav_custom_value r of
                 None \<Rightarrow> ''''
               | Some s \<Rightarrow> if s = '''' then '''' else s))"

text \<open>
  \<open>Product.get_attribute_value\<close>: the attribute is looked up by key, then the flexible
  row of (product, attribute); \<open>Attribute.DoesNotExist\<close> and
  \<open>ProductAttributeValue.DoesNotExist\<close> are caught and give \<open>None\<close>, any other
  exception propagates. The legacy table is not read.
\<close>

definition get_attribute_value :: "db \<Rightarrow> product \<Rightarrow> string \<Rightarrow> error + string option" where
  "get_attribute_value d self attribute_key =
     (case objects_get (\<lambda>a. attr_key a = attribute_key) (attributes d) of
        Inl DoesNotExist \<Rightarrow> Inr None
      | Inl e \<Rightarrow> Inl e
      | Inr attribute \<Rightarrow>
          (case objects_get
                  (\<lambda>r. pav_product r = p_id self \<and> pav_attribute r = attr_id attribute)
                  (product_attribute_values d) of
             Inl DoesNotExist \<Rightarrow> Inr None
           | Inl e \<Rightarrow> Inl e
           | Inr product_attr \<Rightarrow>
               (case get_display_value d product_attr of
                  Inl e \<Rightarrow> Inl e
                | Inr v \<Rightarrow> Inr (Some v))))"

text \<open>
  \<open>ProductAttributeValue.objects.get_or_create(product=self, attribute=attribute,
  defaults={})\<close>: the existing row, or a new row with both value columns empty.
\<close>

definition get_or_create ::
  "db \<Rightarrow> nat \<Rightarrow> nat \<Rightarrow> error + (db \<times> product_attribute_value)" where
  "get_or_create d pid aid =
     (case objects_get (\<lambda>r. pav_product r = pid \<and> pav_attribute r = aid)
             (product_attribute_values d) of
        Inr r \<Rightarrow> Inr (d, r)
      | Inl DoesNotExist \<Rightarrow>
          (let r = \<lparr>pav_product = pid, pav_attribute = aid,
                    pav_attribute_value = None, pav_custom_value = None\<rparr>
           in Inr (d\<lparr>product_attribute_values := product_attribute_values d @ [r]\<rparr>, r))
      | Inl e \<Rightarrow> Inl e)"

text \<open>
  \<open>product_attr.save()\<close> writes the row back. The row came from \<open>get_or_create\<close>, so it
  is the only one of its (product, attribute) pair, which identifies it here.
\<close>

definition save :: "db \<Rightarrow> product_attribute_value \<Rightarrow> db" where
  "save d r =
     d\<lparr>product_attribute_values :=
          map (\<lambda>r'. if pav_product r' = pav_product r \<and> pav_attribute r' = pav_attribute r
                     then r else r')
            (product_attribute_values d)\<rparr>"

text \<open>
  \<open>Product.set_attribute_value\<close>: an unknown key raises \<open>ValueError\<close>; a value that is a
  predefined \<open>NewAttributeValue\<close> of the attribute is stored as \<open>attribute_value\<close> with
  \<open>custom_value\<close> cleared, any other value as \<open>custom_value\<close> with \<open>attribute_value\<close>
  cleared.
\<close>

definition set_attribute_value ::
  "db \<Rightarrow> product \<Rightarrow> string \<Rightarrow> string \<Rightarrow> error + (db \<times> product_attribute_value)" where
  "set_attribute_value d self attribute_key v =
     (case objects_get (\<lambda>a. attr_key a = attribute_key) (attributes d) of
        Inl DoesNotExist \<Rightarrow> Inl ValueError
      | Inl e \<Rightarrow> Inl e
      | Inr attribute \<Rightarrow>
          (case get_or_create d (p_id self) (attr_id attribute) of
             Inl e \<Rightarrow> Inl e
           | Inr (d1, product_attr) \<Rightarrow>
               (case objects_get (\<lambda>n. nav_attribute n = attr_id attribute \<and> nav_value n = v)
                       (new_attribute_values d1) of
                  Inr attribute_value \<Rightarrow>
                    (let product_attr' = product_attr
                           \<lparr>pav_attribute_value := Some (nav_id attribute_value),
                            pav_custom_value := None\<rparr>
                     in Inr (save d1 product_attr', product_attr'))
                | Inl DoesNotExist \<Rightarrow>
                    (let product_attr' = product_attr
                           \<lparr>pav_attribute_value := None, pav_custom_value := Some v\<rparr>
                     in Inr (save d1 product_attr', product_attr'))
                | Inl e \<Rightarrow> Inl e)))"

text \<open>
  The uniqueness constraints the models declare: \<open>Attribute.key\<close> (\<open>unique=True\<close>),
  primary keys, \<open>NewAttributeValue\<close> (\<open>unique_together = ('attribute', 'value')\<close>) and
  \<open>ProductAttributeValue\<close> (\<open>unique_together = ('product', 'attribute')\<close>).
\<close>

definition unique_on :: "('a \<Rightarrow> 'k) \<Rightarrow> 'a list \<Rightarrow> bool" where
  "unique_on f rows = distinct (map f rows)"

definition constraints :: "db \<Rightarrow> bool" where
  "constraints d \<longleftrightarrow>
     unique_on attr_key (attributes d) \<and>
     unique_on attr_id (attributes d) \<and>
     unique_on nav_id (new_attribute_values d) \<and>
     unique_on (\<lambda>n. (nav_attribute n, nav_value n)) (new_attribute_values d) \<and>
     unique_on (\<lambda>r. (pav_product r, pav_attribute r)) (product_attribute_values d)"

text \<open>
  A store with one product, the attribute \<open>color\<close> with its predefined value \<open>red\<close>,
  and a legacy row \<open>color = blue\<close> of the product.
\<close>

definition attr_color :: attribute where
  "attr_color = \<lparr>attr_id = 1, attr_key = ''color''\<rparr>"

definition nav_red :: new_attribute_value where
  "nav_red = \<lparr>nav_id = 1, nav_attribute = 1, nav_value = ''red''\<rparr>"

definition shirt :: product where
  "shirt = \<lparr>p_id = 1, p_name = ''shirt'', p_description = [], p_sku = [], p_model = [],
     p_category = 1, p_price = None, p_price_toman = 100000, p_price_usd = None,
     p_is_active = True, p_is_new_arrival = False, p_created_at = 5\<rparr>"

definition legacy_blue :: product_attribute where
  "legacy_blue = \<lparr>pa_product = 1, pa_key = ''color'', pa_value = ''blue''\<rparr>"

definition color_db :: db where
  "color_db = empty_db\<lparr>products := [shirt], attributes := [attr_color],
     new_attribute_values := [nav_red], legacy_attributes := [legacy_blue]\<rparr>"

text \<open>The same store after the product has received the flexible value \<open>red\<close>.\<close>

definition pav_red :: product_attribute_value where
  "pav_red = \<lparr>pav_product = 1, pav_attribute = 1,
     pav_attribute_value = Some 1, pav_custom_value = None\<rparr>"

definition color_db_flexible :: db where
  "color_db_flexible = color_db\<lparr>product_attribute_values := [pav_red]\<rparr>"

section \<open>Serialized attributes (shop/serializers.py)\<close>

text \<open>
  The Persian key that \<open>ProductSerializer.get_attributes\<close> renames to \<open>brand\<close>, as its
  UTF-8 bytes (U+0628 U+0631 U+0646 U+062F).
\<close>

definition brand_fa :: string where
  "brand_fa = [CHR 0xD8, CHR 0xA8, CHR 0xD8, CHR 0xB1, CHR 0xD9, CHR 0x86, CHR 0xD8, CHR 0xAF]"

definition rename_key :: "string \<Rightarrow> string" where
  "rename_key key = (if key = brand_fa then ''brand'' else key)"

text \<open>\<open>obj.attribute_values.all()\<close> and \<open>obj.legacy_attribute_set.all()\<close>.\<close>

definition attribute_values_of :: "db \<Rightarrow> product \<Rightarrow> product_attribute_value list" where
  "attribute_values_of d obj =
     filter (\<lambda>av. pav_product av = p_id obj) (product_attribute_values d)"

definition legacy_attribute_set :: "db \<Rightarrow> product \<Rightarrow> product_attribute list" where
  "legacy_attribute_set d obj =
     filter (\<lambda>legacy. pa_product legacy = p_id obj) (legacy_attributes d)"

text \<open>
  The first loop of \<open>get_attributes\<close>, over the flexible rows: \<open>av.attribute.key\<close>
  follows the foreign key into \<open>Attribute\<close>; a row whose display value is empty is
  skipped.
\<close>

fun collect_flexible ::
  "db \<Rightarrow> product_attribute_value list \<Rightarrow> error + (string \<times> string) list" where
  "collect_flexible d [] = Inr []"
| "collect_flexible d (av # avs) =
     (case objects_get (\<lambda>a. attr_id a = pav_attribute av) (attributes d) of
        Inl e \<Rightarrow> Inl e
      | Inr a \<Rightarrow>
          (case get_display_value d av of
             Inl e \<Rightarrow> Inl e
           | Inr v \<Rightarrow>
               (case collect_flexible d avs of
                  Inl e \<Rightarrow> Inl e
                | Inr rest \<Rightarrow>
                    Inr ((if v \<noteq> [] then [(rename_key (attr_key a), v)] else []) @ rest))))"

text \<open>The second loop, over the legacy rows.\<close>

fun collect_legacy :: "product_attribute list \<Rightarrow> (string \<times> string) list" where
  "collect_legacy [] = []"
| "collect_legacy (legacy # rest) =
     (if pa_value legacy \<noteq> [] then [(rename_key (pa_key legacy), pa_value legacy)] else [])
     @ collect_legacy rest"

text \<open>
  \<^verbatim>\<open>
  seen = set()
  unique_attributes = []
  for attr in attributes:
      if attr['key'] not in seen:
          seen.add(attr['key'])
          unique_attributes.append(attr)
  \<close>
\<close>

fun unique_loop :: "string list \<Rightarrow> (string \<times> string) list \<Rightarrow> (string \<times> string) list" where
  "unique_loop seen [] = []"
| "unique_loop seen (attr # attrs) =
     (if fst attr \<notin> set seen then attr # unique_loop (fst attr # seen) attrs
      else unique_loop seen attrs)"

text \<open>
  \<open>allowed_keys\<close>: the \<open>CategoryAttribute\<close> keys of the product's category.
\<close>

definition allowed_keys :: "db \<Rightarrow> product \<Rightarrow> string list" where
  "allowed_keys d obj =
     map ca_key (filter (\<lambda>ca. ca_category ca = p_category obj) (category_attributes d))"

text \<open>
  \<open>ProductSerializer.get_attributes\<close>: flexible entries first, then legacy entries,
  duplicates of a key removed keeping the first, and, when the category defines any
  keys, only those keys kept. Reading \<open>obj.category\<close> follows the foreign key.
\<close>

definition get_attributes :: "db \<Rightarrow> product \<Rightarrow> error + (string \<times> string) list" where
  "get_attributes d obj =
     (case objects_get (\<lambda>c. cat_id c = p_category obj) (categories d) of
        Inl e \<Rightarrow> Inl e
      | Inr category \<Rightarrow>
          (case collect_flexible d (attribute_values_of d obj) of
             Inl e \<Rightarrow> Inl e
           | Inr flexible \<Rightarrow>
               (let attributes = flexible @ collect_legacy (legacy_attribute_set d obj);
                    unique_attributes = unique_loop [] attributes
                in Inr (if allowed_keys d obj \<noteq> []
                        then filter (\<lambda>attr. fst attr \<in> set (allowed_keys d obj))
                               unique_attributes
                        else unique_attributes))))"

text \<open>
  A product of category 1 whose flexible store says \<open>color = red\<close> and whose legacy
  store says \<open>color = blue\<close>; the category defines the key \<open>color\<close>.
\<close>

definition cat_shirts :: category where
  "cat_shirts = \<lparr>cat_id = 1, cat_parent = None, cat_type = Auto\<rparr>"

definition serializer_db :: db where
  "serializer_db = color_db_flexible\<lparr>categories := [cat_shirts],
     category_attributes := [\<lparr>ca_category = 1, ca_key = ''color''\<rparr>]\<rparr>"

text \<open>
  What the two stores hold for a product under an output key \<open>k\<close> (the key as the
  serializer emits it, the Persian brand key renamed): the display value of the first
  flexible row of that key whose value is not empty, and the value of the first legacy
  row of that key whose value is not empty.
\<close>

definition flexible_key :: "db \<Rightarrow> product_attribute_value \<Rightarrow> string option" where
  "flexible_key d av =
     (case objects_get (\<lambda>a. attr_id a = pav_attribute av) (attributes d) of
        Inl e \<Rightarrow> None
      | Inr a \<Rightarrow> Some (rename_key (attr_key a)))"

definition flexible_display :: "db \<Rightarrow> product_attribute_value \<Rightarrow> string option" where
  "flexible_display d av =
     (case get_display_value d av of Inl e \<Rightarrow> None | Inr v \<Rightarrow> Some v)"

fun first_flexible :: "db \<Rightarrow> string \<Rightarrow> product_attribute_value list \<Rightarrow> string option" where
  "first_flexible d k [] = None"
| "first_flexible d k (av # avs) =
     (if flexible_key d av = Some k \<and> flexible_display d av \<noteq> None
         \<and> flexible_display d av \<noteq> Some []
      then flexible_display d av
      else first_flexible d k avs)"

fun first_legacy :: "string \<Rightarrow> product_attribute list \<Rightarrow> string option" where
  "first_legacy k [] = None"
| "first_legacy k (legacy # rest) =
     (if rename_key (pa_key legacy) = k \<and> pa_value legacy \<noteq> []
      then Some (pa_value legacy)
      else first_legacy k rest)"

text \<open>
  The product of \<open>serializer_db\<close> with a further legacy row \<open>size = L\<close>, in a category
  that defines \<open>color\<close> and \<open>size\<close>.
\<close>

definition legacy_size :: product_attribute where
  "legacy_size = \<lparr>pa_product = 1, pa_key = ''size'', pa_value = ''L''\<rparr>"

definition mixed_db :: db where
  "mixed_db = serializer_db\<lparr>legacy_attributes := [legacy_blue, legacy_size],
     category_attributes := [\<lparr>ca_category = 1, ca_key = ''color''\<rparr>,
                              \<lparr>ca_category = 1, ca_key = ''size''\<rparr>]\<rparr>"

text \<open>
  A product whose brand is stored under the Persian key in both stores (flexible
  \<open>Nike\<close>, legacy \<open>Adidas\<close>), in a category that defines the Persian key.
\<close>

definition persian_db :: db where
  "persian_db = empty_db\<lparr>
     categories := [cat_shirts],
     products := [shirt],
     attributes := [\<lparr>attr_id = 1, attr_key = brand_fa\<rparr>],
     product_attribute_values :=
       [\<lparr>pav_product = 1, pav_attribute = 1, pav_attribute_value = None,
         pav_custom_value = Some ''Nike''\<rparr>],
     legacy_attributes := [\<lparr>pa_product = 1, pa_key = brand_fa, pa_value = ''Adidas''\<rparr>],
     category_attributes := [\<lparr>ca_category = 1, ca_key = brand_fa\<rparr>]\<rparr>"

section \<open>Filter requests (shop/api_views.py)\<close>

text \<open>
  What the views take from the interpreter and from the ORM is a parameter of the
  model: \<open>int()\<close> and \<open>float()\<close> on a request string (\<open>None\<close> is \<open>ValueError\<close>),
  with \<open>'f\<close> the type of floats; the truth value of \<open>v.strip()\<close>; and
  \<open>products.filter(**{key: value})\<close> for a keyword and a float, which either raises or
  is the test the lookup puts on a row.
\<close>

record 'f builtins =
  py_int :: "string \<Rightarrow> int option"
  py_float :: "string \<Rightarrow> 'f option"
  py_nonblank :: "string \<Rightarrow> bool"
  orm_filter :: "string \<Rightarrow> 'f \<Rightarrow> error + (product \<Rightarrow> bool)"

text \<open>
  A \<open>QueryDict\<close> is the list of (key, value) pairs of the URL in their order:
  \<open>keys()\<close> lists each key once, in order of first occurrence; \<open>getlist\<close> gives all
  values of a key; \<open>get\<close> gives its last value.
\<close>

type_synonym query_params = "(string \<times> string) list"

fun query_keys :: "query_params \<Rightarrow> string list" where
  "query_keys [] = []"
| "query_keys ((k, v) # q) = k # filter (\<lambda>k'. k' \<noteq> k) (query_keys q)"

definition query_getlist :: "query_params \<Rightarrow> string \<Rightarrow> string list" where
  "query_getlist q key = map snd (filter (\<lambda>kv. fst kv = key) q)"

definition query_get :: "query_params \<Rightarrow> string \<Rightarrow> string option" where
  "query_get q key = (case query_getlist q key of [] \<Rightarrow> None | vs \<Rightarrow> Some (last vs))"

text \<open>\<open>str.lower()\<close> on ASCII letters, \<open>in\<close> on strings, and \<open>__icontains\<close>.\<close>

definition lower_char :: "char \<Rightarrow> char" where
  "lower_char c =
     (case map_of (zip ''ABCDEFGHIJKLMNOPQRSTUVWXYZ'' ''abcdefghijklmnopqrstuvwxyz'') c of
        Some l \<Rightarrow> l
      | None \<Rightarrow> c)"

definition lower :: "string \<Rightarrow> string" where
  "lower s = map lower_char s"

fun str_contains :: "string \<Rightarrow> string \<Rightarrow> bool" where
  "str_contains [] sub = (sub = [])"
| "str_contains (c # cs) sub = (prefix sub (c # cs) \<or> str_contains cs sub)"

definition icontains :: "string \<Rightarrow> string \<Rightarrow> bool" where
  "icontains field needle = str_contains (lower field) (lower needle)"

text \<open>The three dictionaries a view collects, in insertion order.\<close>

record filters =
  multi_value_filters :: "(string \<times> string list) list"
  price_filters :: "(string \<times> string) list"
  special_filters :: "(string \<times> string) list"

definition no_filters :: filters where
  "no_filters = \<lparr>multi_value_filters = [], price_filters = [], special_filters = []\<rparr>"

text \<open>
  The loop \<open>for key in query_params.keys()\<close> of both views. They differ in the
  attribute keys they recognise, in the test for a price key and in the special keys
  (\<open>CategoryProductFilterView\<close> has none). \<open>nonblank v\<close> is the truth value of
  \<open>v.strip()\<close>.
\<close>

fun collect_filters ::
  "(string \<Rightarrow> bool) \<Rightarrow> string list \<Rightarrow> (string \<Rightarrow> bool) \<Rightarrow> string list \<Rightarrow> query_params
     \<Rightarrow> string list \<Rightarrow> filters \<Rightarrow> filters" where
  "collect_filters nonblank attribute_keys is_price special q [] f = f"
| "collect_filters nonblank attribute_keys is_price special q (key # rest) f =
     collect_filters nonblank attribute_keys is_price special q rest
       (if key \<in> set attribute_keys then
          (let values = filter nonblank (query_getlist q key)
           in if values \<noteq> []
              then f\<lparr>multi_value_filters := multi_value_filters f @ [(key, values)]\<rparr>
              else f)
        else if is_price key then
          (case query_get q key of
             Some v \<Rightarrow>
               if nonblank v then f\<lparr>price_filters := price_filters f @ [(key, v)]\<rparr> else f
           | None \<Rightarrow> f)
        else if key \<in> set special then
          (case query_get q key of
             Some v \<Rightarrow>
               if nonblank v then f\<lparr>special_filters := special_filters f @ [(key, v)]\<rparr> else f
           | None \<Rightarrow> f)
        else f)"

text \<open>
  \<open>ProductsFilterView\<close>: the attribute keys are the non-empty keys of the legacy and
  flexible rows of the active products.
\<close>

definition all_attribute_keys :: "db \<Rightarrow> string list" where
  "all_attribute_keys d =
     (let active = filter p_is_active (products d);
          legacy_keys = map pa_key
            (filter (\<lambda>r. \<exists>p\<in>set active. p_id p = pa_product r) (legacy_attributes d));
          new_keys = concat (map
            (\<lambda>r. map attr_key (filter (\<lambda>a. attr_id a = pav_attribute r) (attributes d)))
            (filter (\<lambda>r. \<exists>p\<in>set active. p_id p = pav_product r)
               (product_attribute_values d)))
      in filter (\<lambda>key. key \<noteq> []) (legacy_keys @ new_keys))"

definition is_price_key :: "string \<Rightarrow> bool" where
  "is_price_key key =
     (prefix ''price'' key \<and> (str_contains key ''__gte'' \<or> str_contains key ''__lte''))"

definition special_keys :: "string list" where
  "special_keys =
     [''category'', ''q'', ''search'', ''page'', ''per_page'', ''is_new_arrival'', ''is_active'']"

definition category_price_keys :: "string list" where
  "category_price_keys =
     [''price__gte'', ''price__lte'', ''price_toman__gte'', ''price_toman__lte'',
      ''price_usd__gte'', ''price_usd__lte'']"

text \<open>
  \<^verbatim>\<open>
  for price_key, price_value in price_filters.items():
      try:
          price_value = float(price_value)
          products = products.filter(**{price_key: price_value})
      except (ValueError, TypeError):
          continue
  \<close>
\<close>

fun apply_price_filters ::
  "'f builtins \<Rightarrow> (string \<times> string) list \<Rightarrow> product list \<Rightarrow> error + product list" where
  "apply_price_filters B [] ps = Inr ps"
| "apply_price_filters B ((price_key, price_value) # rest) ps =
     (case py_float B price_value of
        None \<Rightarrow> apply_price_filters B rest ps
      | Some x \<Rightarrow>
          (case orm_filter B price_key x of
             Inl e \<Rightarrow>
               if e = ValueError \<or> e = TypeError then apply_price_filters B rest ps
               else Inl e
           | Inr matches \<Rightarrow> apply_price_filters B rest (filter matches ps)))"

text \<open>
  The three id queries of one attribute key, over the products in \<open>scope\<close> (every
  product in \<open>ProductsFilterView\<close>, the products of the category in
  \<open>CategoryProductFilterView\<close>); \<open>wanted\<close> is the test on the stored value.
\<close>

definition matching_ids_legacy ::
  "db \<Rightarrow> (product \<Rightarrow> bool) \<Rightarrow> string \<Rightarrow> (string \<Rightarrow> bool) \<Rightarrow> nat list" where
  "matching_ids_legacy d scope attr_key' wanted =
     map p_id (filter (\<lambda>p. scope p \<and>
        (\<exists>r\<in>set (legacy_attributes d).
           pa_product r = p_id p \<and> pa_key r = attr_key' \<and> wanted (pa_value r)))
        (products d))"

definition matching_ids_new ::
  "db \<Rightarrow> (product \<Rightarrow> bool) \<Rightarrow> string \<Rightarrow> (string \<Rightarrow> bool) \<Rightarrow> nat list" where
  "matching_ids_new d scope attr_key' wanted =
     map p_id (filter (\<lambda>p. scope p \<and>
        (\<exists>r\<in>set (product_attribute_values d). pav_product r = p_id p \<and>
           (\<exists>a\<in>set (attributes d). attr_id a = pav_attribute r \<and> attr_key a = attr_key') \<and>
           (\<exists>n\<in>set (new_attribute_values d).
              pav_attribute_value r = Some (nav_id n) \<and> wanted (nav_value n))))
        (products d))"

definition matching_ids_custom ::
  "db \<Rightarrow> (product \<Rightarrow> bool) \<Rightarrow> string \<Rightarrow> (string \<Rightarrow> bool) \<Rightarrow> nat list" where
  "matching_ids_custom d scope attr_key' wanted =
     map p_id (filter (\<lambda>p. scope p \<and>
        (\<exists>r\<in>set (product_attribute_values d). pav_product r = p_id p \<and>
           (\<exists>a\<in>set (attributes d). attr_id a = pav_attribute r \<and> attr_key a = attr_key') \<and>
           (case pav_custom_value r of None \<Rightarrow> False | Some s \<Rightarrow> wanted s)))
        (products d))"

definition all_matching_ids ::
  "db \<Rightarrow> (product \<Rightarrow> bool) \<Rightarrow> string \<Rightarrow> (string \<Rightarrow> bool) \<Rightarrow> nat set" where
  "all_matching_ids d scope attr_key' wanted =
     set (matching_ids_legacy d scope attr_key' wanted)
     \<union> set (matching_ids_new d scope attr_key' wanted)
     \<union> set (matching_ids_custom d scope attr_key' wanted)"

text \<open>
  The loop \<open>for attr_key, values in multi_value_filters.items()\<close>: one value is
  matched exactly, several with \<open>__in\<close>; each key narrows \<open>products\<close> with
  \<open>products.filter(id__in=all_matching_ids)\<close>.
\<close>

fun apply_attribute_filters ::
  "db \<Rightarrow> (product \<Rightarrow> bool) \<Rightarrow> (string \<times> string list) list \<Rightarrow> product list \<Rightarrow> product list"
  where
  "apply_attribute_filters d scope [] ps = ps"
| "apply_attribute_filters d scope ((attr_key', values) # rest) ps =
     apply_attribute_filters d scope rest
       (if length values = 1
        then filter (\<lambda>p. p_id p \<in> all_matching_ids d scope attr_key' (\<lambda>v. v = values ! 0)) ps
        else filter (\<lambda>p. p_id p \<in> all_matching_ids d scope attr_key' (\<lambda>v. v \<in> set values)) ps)"

text \<open>
  \<open>products.distinct().order_by('-created_at')\<close>. SQL leaves the order of rows with
  equal \<open>created_at\<close> to the database; here they keep the order in which the table
  delivers them.
\<close>

definition order_by_created_desc :: "product list \<Rightarrow> product list" where
  "order_by_created_desc ps = sort_key (\<lambda>p. - p_created_at p) (remdups ps)"

text \<open>The special filters of \<open>ProductsFilterView\<close>, in the order of the source.\<close>

definition truthy :: "string option \<Rightarrow> bool" where
  "truthy v = (case v of None \<Rightarrow> False | Some s \<Rightarrow> s \<noteq> [])"

definition apply_category ::
  "'f builtins \<Rightarrow> (string \<times> string) list \<Rightarrow> product list \<Rightarrow> product list" where
  "apply_category B special ps =
     (case map_of special ''category'' of
        None \<Rightarrow> ps
      | Some s \<Rightarrow>
          (case py_int B s of
             None \<Rightarrow> ps
           | Some category_id \<Rightarrow> filter (\<lambda>p. int (p_category p) = category_id) ps))"

text \<open>
  The query is sent to the database when the view's queryset is evaluated. An id in the
  query that does not fit a 64-bit integer makes the database driver raise
  \<open>OverflowError\<close> then.
\<close>

definition fits_int64 :: "int \<Rightarrow> bool" where
  "fits_int64 i = (- (2 ^ 63) \<le> i \<and> i < 2 ^ 63)"

definition category_fits :: "'f builtins \<Rightarrow> (string \<times> string) list \<Rightarrow> bool" where
  "category_fits B special =
     (case map_of special ''category'' of
        None \<Rightarrow> True
      | Some s \<Rightarrow> (case py_int B s of None \<Rightarrow> True | Some category_id \<Rightarrow> fits_int64 category_id))"

definition apply_search :: "(string \<times> string) list \<Rightarrow> product list \<Rightarrow> product list" where
  "apply_search special ps =
     (let search_query =
            (if truthy (map_of special ''q'') then map_of special ''q''
             else map_of special ''search'')
      in case search_query of
           None \<Rightarrow> ps
         | Some s \<Rightarrow>
             if s \<noteq> [] then
               filter (\<lambda>p. icontains (p_name p) s \<or> icontains (p_description p) s
                            \<or> icontains (p_sku p) s \<or> icontains (p_model p) s) ps
             else ps)"

definition apply_new_arrival :: "(string \<times> string) list \<Rightarrow> product list \<Rightarrow> product list" where
  "apply_new_arrival special ps =
     (case map_of special ''is_new_arrival'' of
        None \<Rightarrow> ps
      | Some s \<Rightarrow>
          if s \<noteq> [] then
            (if lower s \<in> set [''true'', ''1'', ''yes''] then filter p_is_new_arrival ps
             else if lower s \<in> set [''false'', ''0'', ''no'']
                  then filter (\<lambda>p. \<not> p_is_new_arrival p) ps
             else ps)
          else ps)"

definition is_active_false :: "(string \<times> string) list \<Rightarrow> bool" where
  "is_active_false special =
     (case map_of special ''is_active'' of
        None \<Rightarrow> False
      | Some s \<Rightarrow> s \<noteq> [] \<and> lower s \<in> set [''false'', ''0'', ''no''])"

definition apply_is_active ::
  "'f builtins \<Rightarrow> db \<Rightarrow> (string \<times> string) list \<Rightarrow> product list \<Rightarrow> product list" where
  "apply_is_active B d special ps =
     (if is_active_false special
      then apply_category B special (filter (\<lambda>p. \<not> p_is_active p) (products d))
      else ps)"

text \<open>\<open>ProductsFilterView.get\<close> after the filters are collected, up to pagination.\<close>

definition filter_products :: "'f builtins \<Rightarrow> db \<Rightarrow> filters \<Rightarrow> error + product list" where
  "filter_products B d f =
     (let special = special_filters f;
          products0 = filter p_is_active (products d);
          products1 = apply_category B special products0;
          products2 = apply_search special products1;
          products3 = apply_new_arrival special products2;
          products4 = apply_is_active B d special products3
      in case apply_price_filters B (price_filters f) products4 of
           Inl e \<Rightarrow> Inl e
         | Inr products5 \<Rightarrow>
             if category_fits B special
             then Inr (order_by_created_desc
                         (apply_attribute_filters d (\<lambda>p. True) (multi_value_filters f)
                            products5))
             else Inl OverflowError)"

definition ProductsFilterView_get ::
  "'f builtins \<Rightarrow> db \<Rightarrow> query_params \<Rightarrow> error + product list" where
  "ProductsFilterView_get B d q =
     filter_products B d
       (collect_filters (py_nonblank B) (all_attribute_keys d) is_price_key special_keys q
          (query_keys q) no_filters)"

text \<open>
  \<open>CategoryProductFilterView.get\<close>, up to pagination: an unknown category is answered
  with 404; a request that has parameters but neither an attribute filter nor a price
  filter is answered with the empty product list.
\<close>

definition CategoryProductFilterView_get ::
  "'f builtins \<Rightarrow> db \<Rightarrow> query_params \<Rightarrow> nat \<Rightarrow> error + product list" where
  "CategoryProductFilterView_get B d q category_id =
     (if \<not> fits_int64 (int category_id) then Inl OverflowError
      else case objects_get (\<lambda>c. cat_id c = category_id) (categories d) of
        Inl DoesNotExist \<Rightarrow> Inl CategoryNotFound
      | Inl e \<Rightarrow> Inl e
      | Inr category \<Rightarrow>
          (let valid_attribute_keys =
                 map ca_key (filter (\<lambda>ca. ca_category ca = cat_id category)
                               (category_attributes d));
               f = collect_filters (py_nonblank B) valid_attribute_keys
                     (\<lambda>key. key \<in> set category_price_keys) [] q (query_keys q) no_filters
           in if q \<noteq> [] \<and> multi_value_filters f = [] \<and> price_filters f = [] then Inr []
              else
                (let in_category = (\<lambda>p. p_category p = cat_id category);
                     products0 = filter (\<lambda>p. in_category p \<and> p_is_active p) (products d)
                 in case apply_price_filters B (price_filters f) products0 of
                      Inl e \<Rightarrow> Inl e
                    | Inr products1 \<Rightarrow>
                        Inr (order_by_created_desc
                               (apply_attribute_filters d in_category
                                  (multi_value_filters f) products1)))))"

section \<open>A sample interpreter and ORM\<close>

text \<open>
  The parameters at which the examples below are evaluated. They stand for Python and
  the ORM on the inputs used there: decimal digit strings for \<open>int()\<close> and \<open>float()\<close>,
  ASCII whitespace for \<open>strip()\<close>, and the six numeric lookups on the price columns
  with a whole-number bound, a null column never matching.
\<close>

definition py_isspace :: "char \<Rightarrow> bool" where
  "py_isspace c = (let n = (of_char c :: nat) in (9 \<le> n \<and> n \<le> 13) \<or> (28 \<le> n \<and> n \<le> 32))"

definition nonblank :: "string \<Rightarrow> bool" where
  "nonblank v = (\<exists>c\<in>set v. \<not> py_isspace c)"

definition resolve_lookup :: "string \<Rightarrow> ((product \<Rightarrow> rat option) \<times> bool) option" where
  "resolve_lookup price_key =
     (if price_key = ''price__gte'' then Some (p_price, True)
      else if price_key = ''price__lte'' then Some (p_price, False)
      else if price_key = ''price_toman__gte'' then Some (\<lambda>p. Some (p_price_toman p), True)
      else if price_key = ''price_toman__lte'' then Some (\<lambda>p. Some (p_price_toman p), False)
      else if price_key = ''price_usd__gte'' then Some (p_price_usd, True)
      else if price_key = ''price_usd__lte'' then Some (p_price_usd, False)
      else None)"

definition price_matches :: "(product \<Rightarrow> rat option) \<Rightarrow> bool \<Rightarrow> rat \<Rightarrow> product \<Rightarrow> bool" where
  "price_matches field gte x p =
     (case field p of None \<Rightarrow> False | Some y \<Rightarrow> if gte then x \<le> y else y \<le> x)"

definition digit_value :: "char \<Rightarrow> nat option" where
  "digit_value c =
     (let n = (of_char c :: nat) in if 48 \<le> n \<and> n \<le> 57 then Some (n - 48) else None)"

fun read_digits :: "nat \<Rightarrow> string \<Rightarrow> nat option" where
  "read_digits acc [] = Some acc"
| "read_digits acc (c # cs) =
     (case digit_value c of None \<Rightarrow> None | Some n \<Rightarrow> read_digits (10 * acc + n) cs)"

definition read_nat :: "string \<Rightarrow> nat option" where
  "read_nat s = (if s = [] then None else read_digits 0 s)"

definition digits_only :: "rat builtins" where
  "digits_only =
     \<lparr>py_int = (\<lambda>s. map_option int (read_nat s)),
      py_float = (\<lambda>s. map_option of_nat (read_nat s)),
      py_nonblank = nonblank,
      orm_filter = (\<lambda>key x. case resolve_lookup key of
                                None \<Rightarrow> Inl FieldError
                              | Some (field, gte) \<Rightarrow> Inr (price_matches field gte x))\<rparr>"

section \<open>The candidate sets of an attribute key, as the specification words them\<close>

text \<open>
  For a key and a set \<open>V\<close> of requested values, within the products in scope: the
  products with a legacy row of that key whose value is in \<open>V\<close>; the products with a
  flexible row of that attribute key whose predefined value is in \<open>V\<close>; the products
  with a flexible row of that attribute key whose custom value is in \<open>V\<close>.
\<close>

definition ids_legacy :: "db \<Rightarrow> (product \<Rightarrow> bool) \<Rightarrow> string \<Rightarrow> string set \<Rightarrow> nat set" where
  "ids_legacy d scope k V =
     {p_id p | p r. p \<in> set (products d) \<and> scope p \<and> r \<in> set (legacy_attributes d) \<and>
        pa_product r = p_id p \<and> pa_key r = k \<and> pa_value r \<in> V}"

definition ids_flexible_predefined ::
  "db \<Rightarrow> (product \<Rightarrow> bool) \<Rightarrow> string \<Rightarrow> string set \<Rightarrow> nat set" where
  "ids_flexible_predefined d scope k V =
     {p_id p | p r a n. p \<in> set (products d) \<and> scope p \<and>
        r \<in> set (product_attribute_values d) \<and> pav_product r = p_id p \<and>
        a \<in> set (attributes d) \<and> attr_id a = pav_attribute r \<and> attr_key a = k \<and>
        n \<in> set (new_attribute_values d) \<and> pav_attribute_value r = Some (nav_id n) \<and>
        nav_value n \<in> V}"

definition ids_flexible_custom ::
  "db \<Rightarrow> (product \<Rightarrow> bool) \<Rightarrow> string \<Rightarrow> string set \<Rightarrow> nat set" where
  "ids_flexible_custom d scope k V =
     {p_id p | p r a s. p \<in> set (products d) \<and> scope p \<and>
        r \<in> set (product_attribute_values d) \<and> pav_product r = p_id p \<and>
        a \<in> set (attributes d) \<and> attr_id a = pav_attribute r \<and> attr_key a = k \<and>
        pav_custom_value r = Some s \<and> s \<in> V}"

definition candidates :: "db \<Rightarrow> (product \<Rightarrow> bool) \<Rightarrow> string \<Rightarrow> string set \<Rightarrow> nat set" where
  "candidates d scope k V =
     ids_legacy d scope k V \<union> ids_flexible_predefined d scope k V
     \<union> ids_flexible_custom d scope k V"

text \<open>
  Two products across both stores: A has the legacy row \<open>brand = Nike\<close> and the
  flexible custom value \<open>color = Black\<close>; B has the flexible predefined value
  \<open>brand = Nike\<close> and the legacy row \<open>color = White\<close>.
\<close>

definition product_A :: product where
  "product_A = shirt\<lparr>p_id := 1, p_name := ''A'', p_created_at := 2\<rparr>"

definition product_B :: product where
  "product_B = shirt\<lparr>p_id := 2, p_name := ''B'', p_created_at := 1\<rparr>"

definition fixture_db :: db where
  "fixture_db = empty_db\<lparr>
     categories := [cat_shirts],
     products := [product_A, product_B],
     attributes := [\<lparr>attr_id = 1, attr_key = ''brand''\<rparr>, \<lparr>attr_id = 2, attr_key = ''color''\<rparr>],
     new_attribute_values := [\<lparr>nav_id = 1, nav_attribute = 1, nav_value = ''Nike''\<rparr>],
     product_attribute_values :=
       [\<lparr>pav_product = 1, pav_attribute = 2, pav_attribute_value = None,
         pav_custom_value = Some ''Black''\<rparr>,
        \<lparr>pav_product = 2, pav_attribute = 1, pav_attribute_value = Some 1,
         pav_custom_value = None\<rparr>],
     legacy_attributes :=
       [\<lparr>pa_product = 1, pa_key = ''brand'', pa_value = ''Nike''\<rparr>,
        \<lparr>pa_product = 2, pa_key = ''color'', pa_value = ''White''\<rparr>]\<rparr>"

text \<open>
  Category 1 with two active products created at the same time, ids 1 and 2, in this
  order in the table.
\<close>

definition shirt2 :: product where
  "shirt2 = shirt\<lparr>p_id := 2, p_name := ''shirt2''\<rparr>"

definition tie_db :: db where
  "tie_db = serializer_db\<lparr>products := [shirt, shirt2]\<rparr>"

section \<open>The parameters of a request to the general filter, as the request states them\<close>

text \<open>
  An attribute parameter is a key of the request that is an attribute key of an active
  product, with its non-blank values, when it has any. A price parameter is a key that
  is no such attribute key and passes the price test, with its last value, when that is
  not blank. A special parameter is one of the special keys that is neither, with its
  last value, when that is not blank.
\<close>

definition attribute_params ::
  "'f builtins \<Rightarrow> db \<Rightarrow> query_params \<Rightarrow> (string \<times> string list) set" where
  "attribute_params B d q =
     {(k, vs). k \<in> set (query_keys q) \<and> k \<in> set (all_attribute_keys d) \<and>
        vs = filter (py_nonblank B) (query_getlist q k) \<and> vs \<noteq> []}"

definition price_params :: "'f builtins \<Rightarrow> db \<Rightarrow> query_params \<Rightarrow> (string \<times> string) set" where
  "price_params B d q =
     {(k, s). k \<in> set (query_keys q) \<and> k \<notin> set (all_attribute_keys d) \<and> is_price_key k \<and>
        query_get q k = Some s \<and> py_nonblank B s}"

definition special_param :: "'f builtins \<Rightarrow> db \<Rightarrow> query_params \<Rightarrow> string \<Rightarrow> string option" where
  "special_param B d q k =
     (if k \<in> set (query_keys q) \<and> k \<notin> set (all_attribute_keys d) \<and> \<not> is_price_key k
         \<and> k \<in> set special_keys
      then (case query_get q k of
              None \<Rightarrow> None
            | Some s \<Rightarrow> if py_nonblank B s then Some s else None)
      else None)"

text \<open>
  What each parameter asks of a product: the category parameter, when it reads as an
  integer, that the product is of that category; a price parameter whose value reads as
  a float, the test of its lookup; an attribute parameter, that the product is among
  the candidates of the key. A price parameter raises when its value reads as a float
  and the lookup raises anything but \<open>ValueError\<close> or \<open>TypeError\<close>.
\<close>

definition category_ok :: "'f builtins \<Rightarrow> db \<Rightarrow> query_params \<Rightarrow> product \<Rightarrow> bool" where
  "category_ok B d q p =
     (case special_param B d q ''category'' of
        None \<Rightarrow> True
      | Some s \<Rightarrow>
          (case py_int B s of None \<Rightarrow> True | Some cid \<Rightarrow> int (p_category p) = cid))"

definition category_in_range :: "'f builtins \<Rightarrow> db \<Rightarrow> query_params \<Rightarrow> bool" where
  "category_in_range B d q =
     (case special_param B d q ''category'' of
        None \<Rightarrow> True
      | Some s \<Rightarrow> (case py_int B s of None \<Rightarrow> True | Some cid \<Rightarrow> fits_int64 cid))"

definition price_ok :: "'f builtins \<Rightarrow> string \<Rightarrow> string \<Rightarrow> product \<Rightarrow> bool" where
  "price_ok B k s p =
     (case py_float B s of
        None \<Rightarrow> True
      | Some x \<Rightarrow> (case orm_filter B k x of Inl e \<Rightarrow> True | Inr matches \<Rightarrow> matches p))"

definition price_raises :: "'f builtins \<Rightarrow> string \<Rightarrow> string \<Rightarrow> bool" where
  "price_raises B k s =
     (case py_float B s of
        None \<Rightarrow> False
      | Some x \<Rightarrow>
          (case orm_filter B k x of
             Inl e \<Rightarrow> e \<noteq> ValueError \<and> e \<noteq> TypeError
           | Inr matches \<Rightarrow> False))"

definition inactive_selection ::
  "'f builtins \<Rightarrow> db \<Rightarrow> query_params \<Rightarrow> product \<Rightarrow> bool" where
  "inactive_selection B d q p =
     (\<not> p_is_active p \<and> category_ok B d q p \<and>
      (\<forall>ks\<in>price_params B d q. price_ok B (fst ks) (snd ks) p) \<and>
      (\<forall>kv\<in>attribute_params B d q.
         p_id p \<in> candidates d (\<lambda>p. True) (fst kv) (set (snd kv))))"

text \<open>
  An active product with the legacy row \<open>color = blue\<close>, and four inactive ones, none
  a new arrival and none with \<open>shirt\<close> in a text field: \<open>coat\<close> (category 1, 100000,
  blue), \<open>hat\<close> (category 1, 100000, red), \<open>scarf\<close> (category 2, 100000, blue) and
  \<open>boot\<close> (category 1, 500000, blue). The request asks for the inactive products of
  category 1 up to 200000 in blue, and also for the text \<open>shirt\<close> and for new arrivals.
\<close>

definition coat :: product where
  "coat = shirt\<lparr>p_id := 2, p_name := ''coat'', p_is_active := False\<rparr>"

definition hat :: product where
  "hat = shirt\<lparr>p_id := 3, p_name := ''hat'', p_is_active := False\<rparr>"

definition scarf :: product where
  "scarf = shirt\<lparr>p_id := 4, p_name := ''scarf'', p_category := 2, p_is_active := False\<rparr>"

definition boot :: product where
  "boot = shirt\<lparr>p_id := 5, p_name := ''boot'', p_price_toman := 500000,
     p_is_active := False\<rparr>"

definition rebuild_db :: db where
  "rebuild_db = empty_db\<lparr>
     categories := [cat_shirts],
     products := [shirt, coat, hat, scarf, boot],
     legacy_attributes :=
       [\<lparr>pa_product = 1, pa_key = ''color'', pa_value = ''blue''\<rparr>,
        \<lparr>pa_product = 2, pa_key = ''color'', pa_value = ''blue''\<rparr>,
        \<lparr>pa_product = 3, pa_key = ''color'', pa_value = ''red''\<rparr>,
        \<lparr>pa_product = 4, pa_key = ''color'', pa_value = ''blue''\<rparr>,
        \<lparr>pa_product = 5, pa_key = ''color'', pa_value = ''blue''\<rparr>]\<rparr>"

definition rebuild_request :: query_params where
  "rebuild_request =
     [(''is_active'', ''false''), (''category'', ''1''), (''price_toman__lte'', ''200000''),
      (''color'', ''blue''), (''q'', ''shirt''), (''is_new_arrival'', ''true'')]"

text \<open>
  The same inactive \<open>coat\<close> with its legacy row \<open>color = blue\<close>, beside an active
  product that has no attribute row at all.
\<close>

definition inactive_only_db :: db where
  "inactive_only_db = empty_db\<lparr>
     categories := [cat_shirts],
     products := [shirt, coat],
     legacy_attributes := [\<lparr>pa_product = 2, pa_key = ''color'', pa_value = ''blue''\<rparr>]\<rparr>"

section \<open>Pagination\<close>









section \<open>Effective category type\<close>

text \<open>
  Claim C3. For a category whose stored type is \<open>auto\<close> the effective type follows the
  four-case table: subcategories and no active direct products give container; active
  direct products and no subcategories give direct; both give container; neither gives
  direct.
\<close>

theorem effective_type_auto_table:
  "get_effective_category_type d (c\<lparr>cat_type := Auto\<rparr>) =
     (case (subcategories d c \<noteq> [], direct_products d c \<noteq> []) of
        (True, False) \<Rightarrow> Container
      | (False, True) \<Rightarrow> Direct
      | (True, True) \<Rightarrow> Container
      | (False, False) \<Rightarrow> Direct)"
  by (simp add: get_effective_category_type_def subcategories_def direct_products_def
      Let_def split: bool.splits)

section \<open>Category tree traversal\<close>













section \<open>Attribute resolver: writing and reading a flexible value\<close>

lemma filter_unique_on:
  "unique_on f rows \<Longrightarrow> x \<in> set rows \<Longrightarrow> filter (\<lambda>y. f y = f x) rows = [x]"
  unfolding unique_on_def
proof (induction rows)
  case Nil then show ?case by simp
next
  case (Cons a rows)
  show ?case
  proof (cases "a = x")
    case True
    with Cons.prems have "\<forall>y\<in>set rows. f y \<noteq> f x" by (auto simp: image_iff)
    then have "filter (\<lambda>y. f y = f x) rows = []" by (simp add: filter_empty_conv)
    with True show ?thesis by simp
  next
    case False
    with Cons.prems have "x \<in> set rows" "f a \<noteq> f x" "distinct (map f rows)"
      by (auto simp: image_iff)
    with Cons.IH show ?thesis by simp
  qed
qed

lemma objects_get_unique:
  assumes "unique_on f rows" "x \<in> set rows" "\<And>y. P y \<longleftrightarrow> f y = k" "f x = k"
  shows "objects_get P rows = Inr x"
proof -
  have "P = (\<lambda>y. f y = f x)"
    using assms(3,4) by auto
  then have "filter P rows = filter (\<lambda>y. f y = f x) rows" by simp
  with filter_unique_on [OF assms(1,2)] show ?thesis by (simp add: objects_get_def)
qed

lemma objects_get_missing:
  "(\<And>y. y \<in> set rows \<Longrightarrow> \<not> P y) \<Longrightarrow> objects_get P rows = Inl DoesNotExist"
  by (simp add: objects_get_def filter_empty_conv[THEN iffD2])

lemma objects_get_cases:
  assumes "unique_on f rows" "\<And>y. P y \<longleftrightarrow> f y = k"
  shows "(\<exists>x\<in>set rows. f x = k \<and> objects_get P rows = Inr x) \<or>
         ((\<forall>x\<in>set rows. f x \<noteq> k) \<and> objects_get P rows = Inl DoesNotExist)"
proof (cases "\<exists>x\<in>set rows. f x = k")
  case True
  then obtain x where "x \<in> set rows" "f x = k" by blast
  with objects_get_unique [OF assms(1) this(1) assms(2) this(2)] show ?thesis by blast
next
  case False
  then have "objects_get P rows = Inl DoesNotExist"
    by (intro objects_get_missing) (auto simp: assms(2))
  with False show ?thesis by blast
qed


lemma get_or_create_props:
  assumes "unique_on (\<lambda>r. (pav_product r, pav_attribute r)) (product_attribute_values d)"
  shows "\<exists>d1 r. get_or_create d pid aid = Inr (d1, r) \<and>
           unique_on (\<lambda>r. (pav_product r, pav_attribute r)) (product_attribute_values d1) \<and>
           r \<in> set (product_attribute_values d1) \<and> pav_product r = pid \<and> pav_attribute r = aid \<and>
           attributes d1 = attributes d \<and> new_attribute_values d1 = new_attribute_values d"
proof -
  let ?f = "\<lambda>r. (pav_product r, pav_attribute r)"
  let ?P = "\<lambda>r. pav_product r = pid \<and> pav_attribute r = aid"
  have P: "\<And>y. ?P y \<longleftrightarrow> ?f y = (pid, aid)" by simp
  from objects_get_cases [of ?f "product_attribute_values d" ?P "(pid, aid)", OF assms P]
  show ?thesis
  proof
    assume "\<exists>x\<in>set (product_attribute_values d). ?f x = (pid, aid) \<and>
              objects_get ?P (product_attribute_values d) = Inr x"
    then obtain x where "x \<in> set (product_attribute_values d)" "?f x = (pid, aid)"
      "objects_get ?P (product_attribute_values d) = Inr x" by blast
    with assms show ?thesis by (simp add: get_or_create_def)
  next
    assume a: "(\<forall>x\<in>set (product_attribute_values d). ?f x \<noteq> (pid, aid)) \<and>
              objects_get ?P (product_attribute_values d) = Inl DoesNotExist"
    then have "(pid, aid) \<notin> ?f ` set (product_attribute_values d)" by force
    with assms a show ?thesis
      by (simp add: get_or_create_def Let_def unique_on_def)
  qed
qed

lemma save_lookup:
  assumes "unique_on (\<lambda>r. (pav_product r, pav_attribute r)) (product_attribute_values d)"
    and "r \<in> set (product_attribute_values d)"
    and "pav_product r' = pav_product r" "pav_attribute r' = pav_attribute r"
  shows "objects_get (\<lambda>x. pav_product x = pav_product r \<and> pav_attribute x = pav_attribute r)
           (product_attribute_values (save d r')) = Inr r'"
proof -
  let ?f = "\<lambda>r. (pav_product r, pav_attribute r)"
  let ?upd = "\<lambda>x. if pav_product x = pav_product r' \<and> pav_attribute x = pav_attribute r' then r' else x"
  have keys: "map ?f (map ?upd (product_attribute_values d)) = map ?f (product_attribute_values d)"
    by (induction "product_attribute_values d") (auto simp: assms(3,4))
  have sv: "product_attribute_values (save d r') = map ?upd (product_attribute_values d)"
    by (simp add: save_def)
  have u: "unique_on ?f (product_attribute_values (save d r'))"
    using assms(1) unfolding unique_on_def sv keys .
  have m: "r' \<in> set (product_attribute_values (save d r'))"
    unfolding sv using assms(2,3,4) by (force simp: image_iff)
  show ?thesis
    by (rule objects_get_unique [of ?f _ _ _ "(pav_product r, pav_attribute r)", OF u m])
       (auto simp: assms(3,4))
qed


lemma save_other_tables:
  "attributes (save d r) = attributes d" "new_attribute_values (save d r) = new_attribute_values d"
  by (simp_all add: save_def)

text \<open>
  Claim C5. On a store that satisfies its uniqueness constraints, for a product, a key
  registered in the Attribute registry and a string value: \<open>set_attribute_value\<close>
  succeeds, reading the value back for the same product and key returns exactly the value
  that was set, and the written row holds the predefined value with \<open>custom_value\<close>
  cleared when the value is a predefined one of the attribute, and the custom value with
  \<open>attribute_value\<close> cleared otherwise; so the two columns are never both set.
\<close>

theorem set_then_get_roundtrip:
  assumes c: "constraints d" and reg: "a \<in> set (attributes d)" "attr_key a = k"
  shows "\<exists>d' row. set_attribute_value d self k v = Inr (d', row) \<and>
           get_attribute_value d' self k = Inr (Some v) \<and>
           objects_get (\<lambda>r. pav_product r = p_id self \<and> pav_attribute r = attr_id a)
             (product_attribute_values d') = Inr row \<and>
           (if \<exists>n\<in>set (new_attribute_values d). nav_attribute n = attr_id a \<and> nav_value n = v
            then pav_attribute_value row \<noteq> None \<and> pav_custom_value row = None
            else pav_attribute_value row = None \<and> pav_custom_value row = Some v)"
proof -
  let ?navs = "new_attribute_values d"
  from c have ua: "unique_on attr_key (attributes d)"
    and un: "unique_on nav_id ?navs"
    and unv: "unique_on (\<lambda>n. (nav_attribute n, nav_value n)) ?navs"
    and up: "unique_on (\<lambda>r. (pav_product r, pav_attribute r)) (product_attribute_values d)"
    by (simp_all add: constraints_def)
  have ga: "objects_get (\<lambda>a. attr_key a = k) (attributes d) = Inr a"
    by (rule objects_get_unique [OF ua reg(1) _ reg(2)]) simp
  from get_or_create_props [OF up, of "p_id self" "attr_id a"] obtain d1 r0 where
    goc: "get_or_create d (p_id self) (attr_id a) = Inr (d1, r0)"
    and u1: "unique_on (\<lambda>r. (pav_product r, pav_attribute r)) (product_attribute_values d1)"
    and r0: "r0 \<in> set (product_attribute_values d1)" "pav_product r0 = p_id self"
      "pav_attribute r0 = attr_id a"
    and same: "attributes d1 = attributes d" "new_attribute_values d1 = ?navs"
    by blast
  let ?Pn = "\<lambda>n. nav_attribute n = attr_id a \<and> nav_value n = v"
  have Pn: "\<And>y. ?Pn y \<longleftrightarrow> (nav_attribute y, nav_value y) = (attr_id a, v)" by simp
  from objects_get_cases [of "\<lambda>n. (nav_attribute n, nav_value n)" ?navs ?Pn "(attr_id a, v)", OF unv Pn]
  show ?thesis
  proof
    assume "\<exists>n\<in>set ?navs. (nav_attribute n, nav_value n) = (attr_id a, v) \<and>
              objects_get ?Pn ?navs = Inr n"
    then obtain n where n: "n \<in> set ?navs" "nav_attribute n = attr_id a" "nav_value n = v"
      "objects_get ?Pn ?navs = Inr n" by auto
    define row where "row = r0\<lparr>pav_attribute_value := Some (nav_id n), pav_custom_value := None\<rparr>"
    have st: "set_attribute_value d self k v = Inr (save d1 row, row)"
      by (simp add: set_attribute_value_def ga goc same n(4) Let_def row_def)
    have lk: "objects_get (\<lambda>r. pav_product r = p_id self \<and> pav_attribute r = attr_id a)
                (product_attribute_values (save d1 row)) = Inr row"
      using save_lookup [OF u1 r0(1), of row] by (simp add: r0 row_def)
    have gn: "objects_get (\<lambda>m. nav_id m = nav_id n) ?navs = Inr n"
      by (rule objects_get_unique [OF un n(1)]) simp_all
    have "get_display_value (save d1 row) row = Inr v"
      by (simp add: get_display_value_def save_other_tables same gn n(3) row_def)
    then have "get_attribute_value (save d1 row) self k = Inr (Some v)"
      by (simp add: get_attribute_value_def save_other_tables same ga lk)
    with st lk n show ?thesis by (auto simp: row_def)
  next
    assume a: "(\<forall>n\<in>set ?navs. (nav_attribute n, nav_value n) \<noteq> (attr_id a, v)) \<and>
              objects_get ?Pn ?navs = Inl DoesNotExist"
    define row where "row = r0\<lparr>pav_attribute_value := None, pav_custom_value := Some v\<rparr>"
    have st: "set_attribute_value d self k v = Inr (save d1 row, row)"
      using a by (simp add: set_attribute_value_def ga goc same Let_def row_def)
    have lk: "objects_get (\<lambda>r. pav_product r = p_id self \<and> pav_attribute r = attr_id a)
                (product_attribute_values (save d1 row)) = Inr row"
      using save_lookup [OF u1 r0(1), of row] by (simp add: r0 row_def)
    have "get_display_value (save d1 row) row = Inr v"
      by (simp add: get_display_value_def row_def)
    then have "get_attribute_value (save d1 row) self k = Inr (Some v)"
      by (simp add: get_attribute_value_def save_other_tables same ga lk)
    with st lk a show ?thesis by (auto simp: row_def)
  qed
qed

lemma constraints_color_db: "constraints color_db"
  by (simp add: constraints_def unique_on_def color_db_def empty_db_def)

lemma attr_color_registered: "attr_color \<in> set (attributes color_db)"
  by (simp add: color_db_def empty_db_def)

theorem set_then_get_roundtrip_witness:
  "constraints color_db \<and> attr_color \<in> set (attributes color_db) \<and>
   (\<exists>d' row. set_attribute_value color_db shirt ''color'' ''red'' = Inr (d', row) \<and>
      get_attribute_value d' shirt ''color'' = Inr (Some ''red'') \<and>
      pav_attribute_value row \<noteq> None \<and> pav_custom_value row = None) \<and>
   (\<exists>d' row. set_attribute_value color_db shirt ''color'' ''teal'' = Inr (d', row) \<and>
      get_attribute_value d' shirt ''color'' = Inr (Some ''teal'') \<and>
      pav_attribute_value row = None \<and> pav_custom_value row = Some ''teal'')"
proof -
  have k: "attr_key attr_color = ''color''" by (simp add: attr_color_def)
  have red: "\<exists>n\<in>set (new_attribute_values color_db).
      nav_attribute n = attr_id attr_color \<and> nav_value n = ''red''"
    by (simp add: color_db_def empty_db_def nav_red_def attr_color_def)
  have teal: "\<not> (\<exists>n\<in>set (new_attribute_values color_db).
      nav_attribute n = attr_id attr_color \<and> nav_value n = ''teal'')"
    by (simp add: color_db_def empty_db_def nav_red_def attr_color_def)
  from set_then_get_roundtrip [OF constraints_color_db attr_color_registered k, of shirt "''red''"]
    red
  have 1: "\<exists>d' row. set_attribute_value color_db shirt ''color'' ''red'' = Inr (d', row) \<and>
      get_attribute_value d' shirt ''color'' = Inr (Some ''red'') \<and>
      pav_attribute_value row \<noteq> None \<and> pav_custom_value row = None"
    by (simp only: if_True) blast
  from set_then_get_roundtrip [OF constraints_color_db attr_color_registered k, of shirt "''teal''"]
    teal
  have 2: "\<exists>d' row. set_attribute_value color_db shirt ''color'' ''teal'' = Inr (d', row) \<and>
      get_attribute_value d' shirt ''color'' = Inr (Some ''teal'') \<and>
      pav_attribute_value row = None \<and> pav_custom_value row = Some ''teal''"
    by (simp only: if_False) blast
  from 1 2 constraints_color_db attr_color_registered show ?thesis by blast
qed

section \<open>Attribute resolver: reading the display value\<close>

text \<open>
  The display value of a flexible row: the predefined value when \<open>attribute_value\<close> is
  set, whatever \<open>custom_value\<close> holds; otherwise \<open>custom_value\<close>, or the empty string
  when that is null.
\<close>

lemma get_display_value_predefined:
  assumes "pav_attribute_value r = Some i"
    and "objects_get (\<lambda>n. nav_id n = i) (new_attribute_values d) = Inr n"
  shows "get_display_value d r = Inr (nav_value n)"
  using assms by (simp add: get_display_value_def)

lemma get_display_value_custom:
  assumes "pav_attribute_value r = None"
  shows "get_display_value d r = Inr (case pav_custom_value r of None \<Rightarrow> [] | Some s \<Rightarrow> s)"
  using assms by (simp add: get_display_value_def split: option.splits)

lemma get_display_value_both_set:
  "get_display_value color_db_flexible (pav_red\<lparr>pav_custom_value := Some ''teal''\<rparr>) = Inr ''red''"
  by (simp add: get_display_value_def objects_get_def pav_red_def color_db_flexible_def
      color_db_def empty_db_def nav_red_def)

text \<open>
  On a store that satisfies its uniqueness constraints, whatever the legacy table
  holds: when the key is registered and the product has a flexible row for that
  attribute, \<open>get_attribute_value\<close> gives the row's display value; when there is no
  such row, it gives \<open>None\<close>.
\<close>

lemma get_attribute_value_flexible_only:
  assumes c: "constraints d"
  shows
    "(\<exists>a r. a \<in> set (attributes d) \<and> attr_key a = k \<and>
            r \<in> set (product_attribute_values d) \<and>
            pav_product r = p_id self \<and> pav_attribute r = attr_id a \<and>
            get_attribute_value (d\<lparr>legacy_attributes := L\<rparr>) self k =
              (case get_display_value d r of Inl e \<Rightarrow> Inl e | Inr v \<Rightarrow> Inr (Some v)))
     \<or>
     (\<not> (\<exists>a r. a \<in> set (attributes d) \<and> attr_key a = k \<and>
            r \<in> set (product_attribute_values d) \<and>
            pav_product r = p_id self \<and> pav_attribute r = attr_id a) \<and>
      get_attribute_value (d\<lparr>legacy_attributes := L\<rparr>) self k = Inr None)"
proof -
  let ?d = "d\<lparr>legacy_attributes := L\<rparr>"
  from c have ua: "unique_on attr_key (attributes d)"
    and up: "unique_on (\<lambda>r. (pav_product r, pav_attribute r)) (product_attribute_values d)"
    by (simp_all add: constraints_def)
  have disp: "get_display_value ?d r = get_display_value d r" for r
    by (simp add: get_display_value_def split: option.splits)
  have Pa: "\<And>y. (attr_key y = k) \<longleftrightarrow> attr_key y = k" by simp
  from objects_get_cases [of attr_key "attributes d" "\<lambda>a. attr_key a = k" k, OF ua Pa]
  show ?thesis
  proof
    assume "\<exists>a\<in>set (attributes d). attr_key a = k \<and>
              objects_get (\<lambda>a. attr_key a = k) (attributes d) = Inr a"
    then obtain a where a: "a \<in> set (attributes d)" "attr_key a = k"
      "objects_get (\<lambda>a. attr_key a = k) (attributes d) = Inr a" by blast
    have only_a: "a' = a" if "a' \<in> set (attributes d)" "attr_key a' = k" for a'
      using objects_get_unique [OF ua that(1) Pa that(2)] a(3) by simp
    let ?P = "\<lambda>r. pav_product r = p_id self \<and> pav_attribute r = attr_id a"
    have P: "\<And>y. ?P y \<longleftrightarrow> (pav_product y, pav_attribute y) = (p_id self, attr_id a)"
      by simp
    from objects_get_cases [of "\<lambda>r. (pav_product r, pav_attribute r)"
        "product_attribute_values d" ?P "(p_id self, attr_id a)", OF up P]
    show ?thesis
    proof
      assume "\<exists>r\<in>set (product_attribute_values d).
                (pav_product r, pav_attribute r) = (p_id self, attr_id a) \<and>
                objects_get ?P (product_attribute_values d) = Inr r"
      then obtain r where r: "r \<in> set (product_attribute_values d)"
        "pav_product r = p_id self" "pav_attribute r = attr_id a"
        "objects_get ?P (product_attribute_values d) = Inr r" by auto
      have "get_attribute_value ?d self k =
              (case get_display_value d r of Inl e \<Rightarrow> Inl e | Inr v \<Rightarrow> Inr (Some v))"
        by (simp add: get_attribute_value_def a(3) r(4) disp)
      with a r show ?thesis by blast
    next
      assume n: "(\<forall>r\<in>set (product_attribute_values d).
                   (pav_product r, pav_attribute r) \<noteq> (p_id self, attr_id a)) \<and>
                 objects_get ?P (product_attribute_values d) = Inl DoesNotExist"
      then have "get_attribute_value ?d self k = Inr None"
        by (simp add: get_attribute_value_def a(3))
      moreover have "\<not> (\<exists>a' r. a' \<in> set (attributes d) \<and> attr_key a' = k \<and>
            r \<in> set (product_attribute_values d) \<and>
            pav_product r = p_id self \<and> pav_attribute r = attr_id a')"
        using n only_a by auto
      ultimately show ?thesis by blast
    qed
  next
    assume n: "(\<forall>a\<in>set (attributes d). attr_key a \<noteq> k) \<and>
               objects_get (\<lambda>a. attr_key a = k) (attributes d) = Inl DoesNotExist"
    then have "get_attribute_value ?d self k = Inr None"
      by (simp add: get_attribute_value_def)
    with n show ?thesis by blast
  qed
qed

lemma constraints_color_db_flexible: "constraints color_db_flexible"
  by (simp add: constraints_def unique_on_def color_db_flexible_def color_db_def empty_db_def)

lemma get_attribute_value_flexible_only_example:
  "constraints color_db_flexible \<and>
   get_attribute_value (color_db_flexible\<lparr>legacy_attributes := [legacy_blue]\<rparr>)
     shirt ''color'' = Inr (Some ''red'') \<and>
   get_attribute_value (color_db_flexible\<lparr>legacy_attributes := [legacy_blue]\<rparr>)
     shirt ''size'' = Inr None"
proof -
  have 1: "get_attribute_value (color_db_flexible\<lparr>legacy_attributes := [legacy_blue]\<rparr>)
     shirt ''color'' = Inr (Some ''red'')"
    using get_attribute_value_flexible_only
      [OF constraints_color_db_flexible, of "''color''" shirt "[legacy_blue]"]
    by (auto simp: color_db_flexible_def color_db_def empty_db_def attr_color_def pav_red_def
        nav_red_def shirt_def get_display_value_def objects_get_def)
  have 2: "get_attribute_value (color_db_flexible\<lparr>legacy_attributes := [legacy_blue]\<rparr>)
     shirt ''size'' = Inr None"
    using get_attribute_value_flexible_only
      [OF constraints_color_db_flexible, of "''size''" shirt "[legacy_blue]"]
    by (auto simp: color_db_flexible_def color_db_def empty_db_def attr_color_def)
  from 1 2 constraints_color_db_flexible show ?thesis by blast
qed

text \<open>
  Claim C6. With a flexible row of the registered key \<open>color\<close>, \<open>get_attribute_value\<close>
  gives the predefined value \<open>red\<close> when \<open>attribute_value\<close> is set, also when
  \<open>custom_value\<close> holds \<open>teal\<close> beside it, and the custom value \<open>teal\<close> when
  \<open>attribute_value\<close> is null; the legacy row \<open>color = blue\<close> plays no part. With
  that legacy row and no flexible row, the claim's fallback gives \<open>blue\<close>, and
  \<open>get_attribute_value\<close> gives \<open>None\<close>.
\<close>

theorem get_attribute_value_no_legacy_fallback:
  "legacy_blue \<in> set (legacy_attributes color_db) \<and>
   pa_product legacy_blue = p_id shirt \<and> pa_key legacy_blue = ''color'' \<and>
   pa_value legacy_blue = ''blue'' \<and>
   attr_color \<in> set (attributes color_db) \<and> attr_key attr_color = ''color'' \<and>
   get_attribute_value
     (color_db\<lparr>product_attribute_values := [pav_red]\<rparr>) shirt ''color''
     = Inr (Some ''red'') \<and>
   get_attribute_value
     (color_db\<lparr>product_attribute_values := [pav_red\<lparr>pav_custom_value := Some ''teal''\<rparr>]\<rparr>)
     shirt ''color'' = Inr (Some ''red'') \<and>
   get_attribute_value
     (color_db\<lparr>product_attribute_values :=
        [pav_red\<lparr>pav_attribute_value := None, pav_custom_value := Some ''teal''\<rparr>]\<rparr>)
     shirt ''color'' = Inr (Some ''teal'') \<and>
   get_attribute_value
     (color_db\<lparr>product_attribute_values :=
        [pav_red\<lparr>pav_attribute_value := None, pav_custom_value := None\<rparr>]\<rparr>)
     shirt ''color'' = Inr (Some []) \<and>
   product_attribute_values color_db = [] \<and>
   get_attribute_value color_db shirt ''color'' = Inr None"
  by (simp add: color_db_def empty_db_def legacy_blue_def shirt_def attr_color_def
      pav_red_def nav_red_def get_attribute_value_def get_display_value_def objects_get_def)

section \<open>Serialized attributes: the flexible store wins\<close>

lemma map_of_unique_loop:
  "map_of (unique_loop seen attrs) k = (if k \<in> set seen then None else map_of attrs k)"
  by (induction seen attrs rule: unique_loop.induct) auto

lemma keys_unique_loop: "fst ` set (unique_loop seen attrs) \<inter> set seen = {}"
  by (induction seen attrs rule: unique_loop.induct) auto

lemma distinct_unique_loop: "distinct (map fst (unique_loop seen attrs))"
proof (induction seen attrs rule: unique_loop.induct)
  case (1 seen)
  show ?case by simp
next
  case (2 seen attr attrs)
  show ?case
  proof (cases "fst attr \<in> set seen")
    case True
    with 2 show ?thesis by simp
  next
    case False
    from keys_unique_loop [of "fst attr # seen" attrs]
    have "fst attr \<notin> fst ` set (unique_loop (fst attr # seen) attrs)" by auto
    with False 2 show ?thesis by simp
  qed
qed

lemma map_of_filter_keys:
  "map_of (filter (\<lambda>attr. fst attr \<in> A) attrs) k = (if k \<in> A then map_of attrs k else None)"
  by (induction attrs) auto

lemma map_of_collect_flexible:
  "collect_flexible d avs = Inr flexible \<Longrightarrow> map_of flexible k = first_flexible d k avs"
proof (induction avs arbitrary: flexible)
  case Nil
  then show ?case by simp
next
  case (Cons av avs)
  from Cons.prems obtain a v rest where
    a: "objects_get (\<lambda>a. attr_id a = pav_attribute av) (attributes d) = Inr a"
    and v: "get_display_value d av = Inr v"
    and rest: "collect_flexible d avs = Inr rest"
    and fl: "flexible = (if v \<noteq> [] then [(rename_key (attr_key a), v)] else []) @ rest"
    by (auto split: sum.splits)
  from a v have kd: "flexible_key d av = Some (rename_key (attr_key a))"
    "flexible_display d av = Some v"
    by (simp_all add: flexible_key_def flexible_display_def)
  from Cons.IH [OF rest] have "map_of rest k = first_flexible d k avs" .
  with fl kd show ?case by simp
qed

lemma map_of_collect_legacy: "map_of (collect_legacy rows) k = first_legacy k rows"
  by (induction rows) simp_all

lemma map_of_append_first:
  "map_of (xs @ ys) k = (case map_of xs k of Some v \<Rightarrow> Some v | None \<Rightarrow> map_of ys k)"
  by (simp add: map_add_def split: option.splits)

text \<open>
  Claim C9, as the code has it. With keys taken as the serializer emits them (the
  Persian brand key renamed to \<open>brand\<close>): every key occurs once in the output; when
  the product's category defines a non-empty key set, every key of the output belongs
  to it; and for a key that is allowed (the category defines no keys, or the key is
  among them) the value in the output is the first non-empty flexible value of that key
  when there is one, whatever the legacy store holds, and otherwise the first non-empty
  legacy value. A key that is not allowed is not in the output.
\<close>

theorem get_attributes_flexible_then_legacy:
  assumes "get_attributes d obj = Inr out"
  shows "distinct (map fst out) \<and>
         (allowed_keys d obj \<noteq> [] \<longrightarrow> fst ` set out \<subseteq> set (allowed_keys d obj)) \<and>
         map_of out k =
           (if allowed_keys d obj = [] \<or> k \<in> set (allowed_keys d obj)
            then (case first_flexible d k (attribute_values_of d obj) of
                    Some v \<Rightarrow> Some v
                  | None \<Rightarrow> first_legacy k (legacy_attribute_set d obj))
            else None)"
proof -
  from assms obtain flexible where
    flex: "collect_flexible d (attribute_values_of d obj) = Inr flexible"
    and out: "out = (let attributes = flexible @ collect_legacy (legacy_attribute_set d obj);
                        unique_attributes = unique_loop [] attributes
                    in if allowed_keys d obj \<noteq> []
                       then filter (\<lambda>attr. fst attr \<in> set (allowed_keys d obj))
                              unique_attributes
                       else unique_attributes)"
    by (auto simp: get_attributes_def Let_def split: sum.splits)
  let ?attrs = "flexible @ collect_legacy (legacy_attribute_set d obj)"
  let ?uniq = "unique_loop [] ?attrs"
  have u: "map_of ?uniq k =
      (case first_flexible d k (attribute_values_of d obj) of
         Some v \<Rightarrow> Some v
       | None \<Rightarrow> first_legacy k (legacy_attribute_set d obj))"
    by (simp only: map_of_unique_loop map_of_append_first map_of_collect_flexible [OF flex]
        map_of_collect_legacy) simp
  have dist: "distinct (map fst ?uniq)" by (rule distinct_unique_loop)
  show ?thesis
  proof (cases "allowed_keys d obj = []")
    case True
    with out have "out = ?uniq" by (simp add: Let_def)
    with u dist True show ?thesis by simp
  next
    case False
    let ?out = "filter (\<lambda>attr. fst attr \<in> set (allowed_keys d obj)) ?uniq"
    from False out have o: "out = ?out" by (simp add: Let_def)
    have "map_of ?out k = (if k \<in> set (allowed_keys d obj) then map_of ?uniq k else None)"
      by (rule map_of_filter_keys)
    moreover from dist have "distinct (map fst ?out)" by (rule distinct_map_filter)
    moreover have "fst ` set ?out \<subseteq> set (allowed_keys d obj)" by auto
    ultimately show ?thesis using False u unfolding o by simp
  qed
qed

lemma mixed_db_attributes:
  "get_attributes mixed_db shirt = Inr [(''color'', ''red''), (''size'', ''L'')]"
  by (simp add: get_attributes_def objects_get_def attribute_values_of_def
      legacy_attribute_set_def allowed_keys_def get_display_value_def rename_key_def
      brand_fa_def mixed_db_def serializer_db_def color_db_flexible_def color_db_def
      empty_db_def cat_shirts_def shirt_def pav_red_def attr_color_def nav_red_def
      legacy_blue_def legacy_size_def)

theorem get_attributes_flexible_then_legacy_witness:
  "get_attributes mixed_db shirt = Inr [(''color'', ''red''), (''size'', ''L'')] \<and>
   allowed_keys mixed_db shirt = [''color'', ''size''] \<and>
   first_legacy ''color'' (legacy_attribute_set mixed_db shirt) = Some ''blue'' \<and>
   first_legacy ''size'' (legacy_attribute_set mixed_db shirt) = Some ''L'' \<and>
   (case first_flexible mixed_db ''color'' (attribute_values_of mixed_db shirt) of
      Some v \<Rightarrow> Some v
    | None \<Rightarrow> first_legacy ''color'' (legacy_attribute_set mixed_db shirt)) = Some ''red'' \<and>
   (case first_flexible mixed_db ''size'' (attribute_values_of mixed_db shirt) of
      Some v \<Rightarrow> Some v
    | None \<Rightarrow> first_legacy ''size'' (legacy_attribute_set mixed_db shirt)) = Some ''L''"
proof -
  have allowed: "allowed_keys mixed_db shirt = [''color'', ''size'']"
    by (simp add: allowed_keys_def mixed_db_def shirt_def)
  have leg: "first_legacy ''color'' (legacy_attribute_set mixed_db shirt) = Some ''blue''"
    "first_legacy ''size'' (legacy_attribute_set mixed_db shirt) = Some ''L''"
    by (simp_all add: legacy_attribute_set_def mixed_db_def shirt_def legacy_blue_def
        legacy_size_def rename_key_def brand_fa_def)
  from get_attributes_flexible_then_legacy [OF mixed_db_attributes, of "''color''"]
  have c: "(case first_flexible mixed_db ''color'' (attribute_values_of mixed_db shirt) of
      Some v \<Rightarrow> Some v
    | None \<Rightarrow> first_legacy ''color'' (legacy_attribute_set mixed_db shirt)) = Some ''red''"
    by (simp add: allowed)
  from get_attributes_flexible_then_legacy [OF mixed_db_attributes, of "''size''"]
  have s: "(case first_flexible mixed_db ''size'' (attribute_values_of mixed_db shirt) of
      Some v \<Rightarrow> Some v
    | None \<Rightarrow> first_legacy ''size'' (legacy_attribute_set mixed_db shirt)) = Some ''L''"
    by (simp add: allowed)
  from mixed_db_attributes allowed leg c s show ?thesis by simp
qed

text \<open>
  Both stores hold a brand under the Persian key and the category defines that key, yet
  the output is empty: the key is renamed to \<open>brand\<close> before it is compared with the
  category's keys.
\<close>

theorem persian_brand_counterexample:
  "brand_fa \<in> set (allowed_keys persian_db shirt) \<and>
   map attr_key (attributes persian_db) = [brand_fa] \<and>
   map pav_custom_value (attribute_values_of persian_db shirt) = [Some ''Nike''] \<and>
   map (\<lambda>r. (pa_key r, pa_value r)) (legacy_attribute_set persian_db shirt)
     = [(brand_fa, ''Adidas'')] \<and>
   get_attributes persian_db shirt = Inr []"
  by (simp add: get_attributes_def objects_get_def attribute_values_of_def
      legacy_attribute_set_def allowed_keys_def get_display_value_def rename_key_def
      brand_fa_def persian_db_def empty_db_def cat_shirts_def shirt_def)

section \<open>Attribute filters: union within a key, intersection across keys\<close>

lemma matching_ids_legacy_spec:
  "set (matching_ids_legacy d scope k (\<lambda>v. v \<in> V)) = ids_legacy d scope k V"
  unfolding matching_ids_legacy_def ids_legacy_def by auto

lemma matching_ids_new_spec:
  "set (matching_ids_new d scope k (\<lambda>v. v \<in> V)) = ids_flexible_predefined d scope k V"
proof (rule set_eqI, rule iffI)
  fix i
  assume "i \<in> set (matching_ids_new d scope k (\<lambda>v. v \<in> V))"
  then obtain p r a n where "i = p_id p" "p \<in> set (products d)" "scope p"
    "r \<in> set (product_attribute_values d)" "pav_product r = p_id p"
    "a \<in> set (attributes d)" "attr_id a = pav_attribute r" "attr_key a = k"
    "n \<in> set (new_attribute_values d)" "pav_attribute_value r = Some (nav_id n)"
    "nav_value n \<in> V"
    unfolding matching_ids_new_def by auto
  then show "i \<in> ids_flexible_predefined d scope k V"
    unfolding ids_flexible_predefined_def by blast
next
  fix i
  assume "i \<in> ids_flexible_predefined d scope k V"
  then obtain p r a n where "i = p_id p" "p \<in> set (products d)" "scope p"
    "r \<in> set (product_attribute_values d)" "pav_product r = p_id p"
    "a \<in> set (attributes d)" "attr_id a = pav_attribute r" "attr_key a = k"
    "n \<in> set (new_attribute_values d)" "pav_attribute_value r = Some (nav_id n)"
    "nav_value n \<in> V"
    unfolding ids_flexible_predefined_def by blast
  then have "p \<in> set (products d) \<and> scope p \<and>
        (\<exists>r\<in>set (product_attribute_values d). pav_product r = p_id p \<and>
           (\<exists>a\<in>set (attributes d). attr_id a = pav_attribute r \<and> attr_key a = k) \<and>
           (\<exists>n\<in>set (new_attribute_values d).
              pav_attribute_value r = Some (nav_id n) \<and> nav_value n \<in> V))"
    by blast
  with \<open>i = p_id p\<close> show "i \<in> set (matching_ids_new d scope k (\<lambda>v. v \<in> V))"
    unfolding matching_ids_new_def by (simp add: image_iff) blast
qed

lemma custom_case_iff:
  "(case c of None \<Rightarrow> False | Some s \<Rightarrow> s \<in> V) \<longleftrightarrow> (\<exists>s. c = Some s \<and> s \<in> V)"
  by (cases c) auto

lemma matching_ids_custom_spec:
  "set (matching_ids_custom d scope k (\<lambda>v. v \<in> V)) = ids_flexible_custom d scope k V"
proof (rule set_eqI, rule iffI)
  fix i
  assume "i \<in> set (matching_ids_custom d scope k (\<lambda>v. v \<in> V))"
  then obtain p r a s where "i = p_id p" "p \<in> set (products d)" "scope p"
    "r \<in> set (product_attribute_values d)" "pav_product r = p_id p"
    "a \<in> set (attributes d)" "attr_id a = pav_attribute r" "attr_key a = k"
    "pav_custom_value r = Some s" "s \<in> V"
    unfolding matching_ids_custom_def custom_case_iff by auto
  then show "i \<in> ids_flexible_custom d scope k V"
    unfolding ids_flexible_custom_def by blast
next
  fix i
  assume "i \<in> ids_flexible_custom d scope k V"
  then obtain p r a s where "i = p_id p" "p \<in> set (products d)" "scope p"
    "r \<in> set (product_attribute_values d)" "pav_product r = p_id p"
    "a \<in> set (attributes d)" "attr_id a = pav_attribute r" "attr_key a = k"
    "pav_custom_value r = Some s" "s \<in> V"
    unfolding ids_flexible_custom_def by blast
  then have "p \<in> set (products d) \<and> scope p \<and>
        (\<exists>r\<in>set (product_attribute_values d). pav_product r = p_id p \<and>
           (\<exists>a\<in>set (attributes d). attr_id a = pav_attribute r \<and> attr_key a = k) \<and>
           (\<exists>s. pav_custom_value r = Some s \<and> s \<in> V))"
    by blast
  with \<open>i = p_id p\<close> show "i \<in> set (matching_ids_custom d scope k (\<lambda>v. v \<in> V))"
    unfolding matching_ids_custom_def custom_case_iff by (simp add: image_iff) blast
qed

lemma all_matching_ids_candidates:
  "all_matching_ids d scope k (\<lambda>v. v \<in> V) = candidates d scope k V"
  by (simp only: all_matching_ids_def candidates_def matching_ids_legacy_spec
      matching_ids_new_spec matching_ids_custom_spec)

lemma single_value_is_membership:
  assumes "length values = 1"
  shows "(\<lambda>v. v = values ! 0) = (\<lambda>v. v \<in> set values)"
proof -
  from assms obtain x where "values = [x]"
    by (cases "values") auto
  then show ?thesis by auto
qed

lemma apply_attribute_filters_filter:
  "apply_attribute_filters d scope mvf ps =
     filter (\<lambda>p. \<forall>kv\<in>set mvf. p_id p \<in> candidates d scope (fst kv) (set (snd kv))) ps"
proof (induction mvf arbitrary: ps)
  case Nil
  show ?case by simp
next
  case (Cons kv mvf)
  obtain k "values" where kv: "kv = (k, values)" by (cases kv)
  have step: "(if length values = 1
        then filter (\<lambda>p. p_id p \<in> all_matching_ids d scope k (\<lambda>v. v = values ! 0)) ps
        else filter (\<lambda>p. p_id p \<in> all_matching_ids d scope k (\<lambda>v. v \<in> set values)) ps)
      = filter (\<lambda>p. p_id p \<in> candidates d scope k (set values)) ps"
    by (simp add: single_value_is_membership all_matching_ids_candidates)
  show ?case
    unfolding kv apply_attribute_filters.simps step Cons.IH
    by (auto intro: filter_cong)
qed

text \<open>
  Claim C2. For an attribute key with requested values \<open>V\<close> the candidate ids computed
  by the filter loop are the union of the three sets (legacy rows, flexible predefined
  values, flexible custom values), and the products that remain after the loop are
  those that lie in the candidate set of every requested key.
\<close>

theorem attribute_filters_union_then_intersection:
  "all_matching_ids d scope k (\<lambda>v. v \<in> V) =
     ids_legacy d scope k V \<union> ids_flexible_predefined d scope k V
     \<union> ids_flexible_custom d scope k V
   \<and> apply_attribute_filters d scope mvf ps =
     filter (\<lambda>p. \<forall>kv\<in>set mvf.
        p_id p \<in> ids_legacy d scope (fst kv) (set (snd kv))
                \<union> ids_flexible_predefined d scope (fst kv) (set (snd kv))
                \<union> ids_flexible_custom d scope (fst kv) (set (snd kv))) ps"
  using all_matching_ids_candidates [of d scope k V]
    apply_attribute_filters_filter [of d scope mvf ps]
  by (simp add: candidates_def)

lemmas fixture_defs =
  fixture_db_def empty_db_def product_A_def product_B_def shirt_def cat_shirts_def
  all_matching_ids_def matching_ids_legacy_def matching_ids_new_def matching_ids_custom_def

lemma fixture_brand_and_color:
  "apply_attribute_filters fixture_db (\<lambda>p. True)
     [(''brand'', [''Nike'']), (''color'', [''Black''])] (products fixture_db) = [product_A]"
  by (simp add: fixture_defs)

lemma fixture_two_colors:
  "apply_attribute_filters fixture_db (\<lambda>p. True)
     [(''color'', [''Black'', ''White''])] (products fixture_db) = [product_A, product_B]"
  by (simp add: fixture_defs)

theorem attribute_filters_union_then_intersection_witness:
  "filter (\<lambda>p. \<forall>kv\<in>set [(''brand'', [''Nike'']), (''color'', [''Black''])].
        p_id p \<in> ids_legacy fixture_db (\<lambda>p. True) (fst kv) (set (snd kv))
                \<union> ids_flexible_predefined fixture_db (\<lambda>p. True) (fst kv) (set (snd kv))
                \<union> ids_flexible_custom fixture_db (\<lambda>p. True) (fst kv) (set (snd kv)))
     (products fixture_db) = [product_A]
   \<and> filter (\<lambda>p. \<forall>kv\<in>set [(''color'', [''Black'', ''White''])].
        p_id p \<in> ids_legacy fixture_db (\<lambda>p. True) (fst kv) (set (snd kv))
                \<union> ids_flexible_predefined fixture_db (\<lambda>p. True) (fst kv) (set (snd kv))
                \<union> ids_flexible_custom fixture_db (\<lambda>p. True) (fst kv) (set (snd kv)))
     (products fixture_db) = [product_A, product_B]"
  using attribute_filters_union_then_intersection
      [of fixture_db "\<lambda>p. True" "''brand''" "{''Nike''}"
         "[(''brand'', [''Nike'']), (''color'', [''Black''])]" "products fixture_db"]
    attribute_filters_union_then_intersection
      [of fixture_db "\<lambda>p. True" "''color''" "{''Black'', ''White''}"
         "[(''color'', [''Black'', ''White''])]" "products fixture_db"]
    fixture_brand_and_color fixture_two_colors
  by (simp only:)

section \<open>Unrecognised query parameters\<close>

lemma collect_filters_unrecognised:
  assumes "\<And>key. key \<in> set keys \<Longrightarrow>
             key \<notin> set attribute_keys \<and> \<not> is_price key \<and> key \<notin> set special"
  shows "collect_filters nb attribute_keys is_price special q keys f = f"
  using assms by (induction keys arbitrary: f) simp_all

lemma distinct_order_by_created_desc: "distinct (order_by_created_desc ps)"
  by (simp add: order_by_created_desc_def)

lemma set_order_by_created_desc: "set (order_by_created_desc ps) = set ps"
  by (simp add: order_by_created_desc_def)

lemma sorted_order_by_created_desc:
  "sorted_wrt (\<lambda>a b. p_created_at b \<le> p_created_at a) (order_by_created_desc ps)"
proof -
  have "sorted (map (\<lambda>p. - p_created_at p) (order_by_created_desc ps))"
    by (simp add: order_by_created_desc_def)
  then show ?thesis by (simp add: sorted_map)
qed

text \<open>
  In \<open>ProductsFilterView\<close> a request none of whose keys is recognised is answered like
  a request without parameters: with all active products.
\<close>

lemma products_view_ignores_unrecognised:
  assumes "\<And>key. key \<in> set (query_keys q) \<Longrightarrow>
             key \<notin> set (all_attribute_keys d) \<and> \<not> is_price_key key \<and> key \<notin> set special_keys"
  shows "ProductsFilterView_get B d q = Inr (order_by_created_desc (filter p_is_active (products d)))"
  by (simp add: ProductsFilterView_get_def collect_filters_unrecognised [OF assms]
      filter_products_def no_filters_def apply_category_def category_fits_def
      apply_search_def truthy_def apply_new_arrival_def apply_is_active_def
      is_active_false_def)

text \<open>
  In \<open>CategoryProductFilterView\<close> such a request, when it has any parameter, is
  answered with the empty list; without parameters, with the active products of the
  category.
\<close>

lemma category_view_unrecognised_empty:
  assumes "objects_get (\<lambda>c. cat_id c = category_id) (categories d) = Inr category"
    and "fits_int64 (int category_id)"
    and "q \<noteq> []"
    and "\<And>key. key \<in> set (query_keys q) \<Longrightarrow>
           key \<notin> set (map ca_key (filter (\<lambda>ca. ca_category ca = cat_id category)
                                  (category_attributes d)))
           \<and> key \<notin> set category_price_keys"
  shows "CategoryProductFilterView_get B d q category_id = Inr []"
proof -
  have "collect_filters (py_nonblank B)
          (map ca_key (filter (\<lambda>ca. ca_category ca = cat_id category) (category_attributes d)))
          (\<lambda>key. key \<in> set category_price_keys) [] q (query_keys q) no_filters = no_filters"
    by (rule collect_filters_unrecognised) (use assms(4) in auto)
  then show ?thesis
    using assms(1,2,3) by (simp add: CategoryProductFilterView_get_def no_filters_def)
qed

lemma category_view_no_parameters:
  assumes "objects_get (\<lambda>c. cat_id c = category_id) (categories d) = Inr category"
    and "fits_int64 (int category_id)"
  shows "CategoryProductFilterView_get B d [] category_id =
     Inr (order_by_created_desc
            (filter (\<lambda>p. p_category p = cat_id category \<and> p_is_active p) (products d)))"
  using assms by (simp add: CategoryProductFilterView_get_def no_filters_def)

text \<open>
  Claim C1 at the request \<open>foo=bar\<close>, on a store with one active product of category 1
  whose attribute keys do not include \<open>foo\<close>: \<open>ProductsFilterView\<close> answers with the
  product, \<open>CategoryProductFilterView\<close> of category 1 with the empty list.
\<close>

theorem unrecognised_key_products_view:
  "ProductsFilterView_get digits_only serializer_db [(''foo'', ''bar'')] = Inr [shirt] \<and>
   CategoryProductFilterView_get digits_only serializer_db [(''foo'', ''bar'')] 1 = Inr []"
proof -
  have keys: "all_attribute_keys serializer_db = [''color'', ''color'']"
    by (simp add: all_attribute_keys_def serializer_db_def color_db_flexible_def color_db_def
        empty_db_def shirt_def legacy_blue_def pav_red_def attr_color_def)
  have "ProductsFilterView_get digits_only serializer_db [(''foo'', ''bar'')]
      = Inr (order_by_created_desc (filter p_is_active (products serializer_db)))"
    by (rule products_view_ignores_unrecognised)
       (simp add: keys is_price_key_def special_keys_def)
  moreover have "order_by_created_desc (filter p_is_active (products serializer_db)) = [shirt]"
    by (simp add: order_by_created_desc_def serializer_db_def color_db_flexible_def color_db_def
        empty_db_def shirt_def)
  moreover have "CategoryProductFilterView_get digits_only serializer_db [(''foo'', ''bar'')] 1
      = Inr []"
    by (rule category_view_unrecognised_empty [where category = cat_shirts])
       (simp_all add: objects_get_def serializer_db_def cat_shirts_def category_price_keys_def
          fits_int64_def)
  ultimately show ?thesis by simp
qed

section \<open>Ordering of the result\<close>

lemma products_view_result_shape:
  assumes "ProductsFilterView_get B d q = Inr ps"
  shows "\<exists>xs. ps = order_by_created_desc xs"
  using assms
  by (auto simp: ProductsFilterView_get_def filter_products_def Let_def
      split: sum.splits if_splits)

lemma category_view_result_shape:
  assumes "CategoryProductFilterView_get B d q c = Inr ps"
  shows "ps = [] \<or> (\<exists>xs. ps = order_by_created_desc xs)"
proof (cases "objects_get (\<lambda>x. cat_id x = c) (categories d)")
  case (Inl e)
  with assms show ?thesis
    by (cases e) (simp_all add: CategoryProductFilterView_get_def split: if_splits)
next
  case (Inr category)
  with assms show ?thesis
    by (auto simp: CategoryProductFilterView_get_def Let_def split: if_splits sum.splits)
qed

text \<open>
  Claim C7, as the code has it. The result of a filter request has no duplicates and is
  ordered by \<open>created_at\<close> descending. The code gives no order to products with equal
  \<open>created_at\<close>: there is no tie-break on the id.
\<close>

theorem filter_result_distinct_newest_first:
  "(ProductsFilterView_get B d q = Inr ps \<longrightarrow>
      distinct ps \<and> sorted_wrt (\<lambda>a b. p_created_at b \<le> p_created_at a) ps) \<and>
   (CategoryProductFilterView_get B d q c = Inr ps \<longrightarrow>
      distinct ps \<and> sorted_wrt (\<lambda>a b. p_created_at b \<le> p_created_at a) ps)"
proof (intro conjI impI)
  assume "ProductsFilterView_get B d q = Inr ps"
  from products_view_result_shape [OF this] obtain xs where "ps = order_by_created_desc xs" ..
  then show "distinct ps" "sorted_wrt (\<lambda>a b. p_created_at b \<le> p_created_at a) ps"
    by (simp_all add: distinct_order_by_created_desc sorted_order_by_created_desc)
next
  assume "CategoryProductFilterView_get B d q c = Inr ps"
  from category_view_result_shape [OF this]
  have "ps = [] \<or> (\<exists>xs. ps = order_by_created_desc xs)" .
  then show "distinct ps" "sorted_wrt (\<lambda>a b. p_created_at b \<le> p_created_at a) ps"
    by (auto simp: distinct_order_by_created_desc sorted_order_by_created_desc)
qed

lemma tie_db_products_view: "ProductsFilterView_get digits_only tie_db [] = Inr [shirt, shirt2]"
  by (simp add: ProductsFilterView_get_def filter_products_def no_filters_def
      apply_category_def category_fits_def apply_search_def truthy_def apply_new_arrival_def
      apply_is_active_def is_active_false_def order_by_created_desc_def tie_db_def shirt_def
      shirt2_def)

lemma tie_db_category_view:
  "CategoryProductFilterView_get digits_only tie_db [] 1 = Inr [shirt, shirt2]"
  by (simp add: CategoryProductFilterView_get_def objects_get_def no_filters_def
      fits_int64_def order_by_created_desc_def tie_db_def serializer_db_def cat_shirts_def
      shirt_def shirt2_def)

theorem filter_result_distinct_newest_first_witness:
  "ProductsFilterView_get digits_only tie_db [] = Inr [shirt, shirt2] \<and>
   CategoryProductFilterView_get digits_only tie_db [] 1 = Inr [shirt, shirt2] \<and>
   distinct [shirt, shirt2] \<and>
   sorted_wrt (\<lambda>a b. p_created_at b \<le> p_created_at a) [shirt, shirt2]"
  using filter_result_distinct_newest_first
      [of digits_only tie_db "[]" "[shirt, shirt2]" 1]
    tie_db_products_view tie_db_category_view
  by blast

text \<open>
  Two products created at the same time come out in table order, id 1 before id 2, not
  by id descending.
\<close>

theorem tie_break_counterexample:
  "ProductsFilterView_get digits_only tie_db [] = Inr [shirt, shirt2] \<and>
   p_created_at shirt = p_created_at shirt2 \<and> p_id shirt < p_id shirt2"
  using tie_db_products_view by (simp add: shirt_def shirt2_def)

section \<open>Inactive products\<close>

lemma collect_multi_value_filters:
  "kv \<in> set (multi_value_filters (collect_filters nb aks isp sp q keys f)) \<longleftrightarrow>
     kv \<in> set (multi_value_filters f) \<or>
     (fst kv \<in> set keys \<and> fst kv \<in> set aks \<and>
      snd kv = filter nb (query_getlist q (fst kv)) \<and> snd kv \<noteq> [])"
proof (induction keys arbitrary: f)
  case Nil
  show ?case by simp
next
  case (Cons key keys)
  show ?case
    unfolding collect_filters.simps Cons.IH
    by (cases kv) (auto simp: Let_def split: option.splits)
qed

lemma collect_price_filters:
  "ks \<in> set (price_filters (collect_filters nb aks isp sp q keys f)) \<longleftrightarrow>
     ks \<in> set (price_filters f) \<or>
     (fst ks \<in> set keys \<and> fst ks \<notin> set aks \<and> isp (fst ks) \<and>
      query_get q (fst ks) = Some (snd ks) \<and> nb (snd ks))"
proof (induction keys arbitrary: f)
  case Nil
  show ?case by simp
next
  case (Cons key keys)
  show ?case
    unfolding collect_filters.simps Cons.IH
    by (cases ks) (auto simp: Let_def split: option.splits)
qed

lemma map_of_snoc:
  "map_of (xs @ [(k, v)]) k' =
     (case map_of xs k' of Some w \<Rightarrow> Some w | None \<Rightarrow> if k' = k then Some v else None)"
  by (simp add: map_add_def split: option.splits)

lemma collect_special_filters:
  "map_of (special_filters (collect_filters nb aks isp sp q keys f)) k =
     (case map_of (special_filters f) k of
        Some v \<Rightarrow> Some v
      | None \<Rightarrow>
          if k \<in> set keys \<and> k \<notin> set aks \<and> \<not> isp k \<and> k \<in> set sp
          then (case query_get q k of
                  None \<Rightarrow> None
                | Some s \<Rightarrow> if nb s then Some s else None)
          else None)"
proof (induction keys arbitrary: f)
  case Nil
  show ?case by (simp split: option.splits)
next
  case (Cons key keys)
  show ?case
    unfolding collect_filters.simps Cons.IH
    by (auto simp: Let_def map_of_snoc split: option.splits)
qed

lemma apply_price_filters_Inr_iff:
  "apply_price_filters B pf ps = Inr r \<longleftrightarrow>
     (\<forall>ks\<in>set pf. \<not> price_raises B (fst ks) (snd ks)) \<and>
     r = filter (\<lambda>p. \<forall>ks\<in>set pf. price_ok B (fst ks) (snd ks) p) ps"
proof (induction pf arbitrary: ps)
  case Nil
  show ?case by auto
next
  case (Cons ks pf)
  obtain k s where ks: "ks = (k, s)" by (cases ks)
  show ?case
  proof (cases "py_float B s")
    case None
    then show ?thesis
      unfolding ks by (simp add: Cons.IH price_raises_def price_ok_def)
  next
    case (Some x)
    show ?thesis
    proof (cases "orm_filter B k x")
      case (Inl e)
      with Some show ?thesis
        unfolding ks by (simp add: Cons.IH price_raises_def price_ok_def)
    next
      case (Inr matches)
      have "filter (\<lambda>p. \<forall>ks\<in>set pf. price_ok B (fst ks) (snd ks) p) (filter matches ps)
          = filter (\<lambda>p. matches p \<and> (\<forall>ks\<in>set pf. price_ok B (fst ks) (snd ks) p)) ps"
        by (simp add: conj_commute)
      with Some Inr show ?thesis
        unfolding ks by (simp add: Cons.IH price_raises_def price_ok_def)
    qed
  qed
qed

lemma apply_category_filter:
  "apply_category B special ps =
     filter (\<lambda>p. case map_of special ''category'' of
                    None \<Rightarrow> True
                  | Some s \<Rightarrow>
                      (case py_int B s of
                         None \<Rightarrow> True
                       | Some cid \<Rightarrow> int (p_category p) = cid)) ps"
  by (simp add: apply_category_def split: option.splits)

text \<open>
  Claim C10, as the code has it. When the special parameter \<open>is_active\<close> has a false
  value, the answer of the general filter is drawn from the inactive products alone:
  it succeeds exactly when no price parameter raises and the category id is in range,
  and then it is, newest first, the inactive products that satisfy the category
  parameter, every price parameter and every attribute parameter. The search text and
  the \<open>is_new_arrival\<close> parameter do not enter. Attribute parameters are recognised
  from the keys of the active products, so a key that only inactive products carry is
  no attribute parameter and is ignored.
\<close>

theorem inactive_request_result:
  assumes "special_param B d q ''is_active'' = Some v"
    and "lower v \<in> set [''false'', ''0'', ''no'']"
  shows "ProductsFilterView_get B d q = Inr r \<longleftrightarrow>
     (\<forall>ks\<in>price_params B d q. \<not> price_raises B (fst ks) (snd ks)) \<and>
     category_in_range B d q \<and>
     r = order_by_created_desc (filter (inactive_selection B d q) (products d))"
proof -
  let ?f = "collect_filters (py_nonblank B) (all_attribute_keys d) is_price_key special_keys q
              (query_keys q) no_filters"
  have sp: "map_of (special_filters ?f) k = special_param B d q k" for k
    by (simp add: collect_special_filters special_param_def no_filters_def)
  have pf: "set (price_filters ?f) = price_params B d q"
    by (rule set_eqI) (auto simp: collect_price_filters price_params_def no_filters_def)
  have mv: "set (multi_value_filters ?f) = attribute_params B d q"
    by (rule set_eqI) (auto simp: collect_multi_value_filters attribute_params_def no_filters_def)
  from assms have act: "is_active_false (special_filters ?f)"
    by (auto simp: is_active_false_def sp lower_def)
  let ?inactive = "filter (\<lambda>p. \<not> p_is_active p) (products d)"
  let ?cat = "apply_category B (special_filters ?f) ?inactive"
  have cat: "?cat = filter (\<lambda>p. \<not> p_is_active p \<and> category_ok B d q p) (products d)"
    by (simp add: apply_category_filter sp category_ok_def conj_commute)
  have fits: "category_fits B (special_filters ?f) = category_in_range B d q"
    by (simp add: category_fits_def category_in_range_def sp)
  have view: "ProductsFilterView_get B d q =
      (case apply_price_filters B (price_filters ?f) ?cat of
         Inl e \<Rightarrow> Inl e
       | Inr ps \<Rightarrow>
           if category_fits B (special_filters ?f)
           then Inr (order_by_created_desc
                       (apply_attribute_filters d (\<lambda>p. True) (multi_value_filters ?f) ps))
           else Inl OverflowError)"
    using act by (simp add: ProductsFilterView_get_def filter_products_def apply_is_active_def
        Let_def)
  have sel: "apply_attribute_filters d (\<lambda>p. True) (multi_value_filters ?f)
        (filter (\<lambda>p. \<forall>ks\<in>set (price_filters ?f). price_ok B (fst ks) (snd ks) p) ?cat)
      = filter (inactive_selection B d q) (products d)"
    unfolding apply_attribute_filters_filter cat pf mv
    by (simp add: inactive_selection_def [abs_def])
  show ?thesis
  proof (cases "apply_price_filters B (price_filters ?f) ?cat")
    case (Inl e)
    then have "\<not> (\<forall>ks\<in>set (price_filters ?f). \<not> price_raises B (fst ks) (snd ks))"
      using apply_price_filters_Inr_iff [of B "price_filters ?f" ?cat] by auto
    with Inl view pf show ?thesis by auto
  next
    case (Inr ps)
    then have ok: "\<forall>ks\<in>set (price_filters ?f). \<not> price_raises B (fst ks) (snd ks)"
      and ps: "ps = filter (\<lambda>p. \<forall>ks\<in>set (price_filters ?f). price_ok B (fst ks) (snd ks) p) ?cat"
      using apply_price_filters_Inr_iff [of B "price_filters ?f" ?cat ps] by auto
    from view Inr have "ProductsFilterView_get B d q =
        (if category_in_range B d q
         then Inr (order_by_created_desc (filter (inactive_selection B d q) (products d)))
         else Inl OverflowError)"
      using sel unfolding ps fits by simp
    with ok pf show ?thesis by auto
  qed
qed

lemmas sample_defs =
  digits_only_def read_nat_def digit_value_def nonblank_def py_isspace_def
  resolve_lookup_def price_matches_def lower_def lower_char_def

lemma rebuild_db_keys: "all_attribute_keys rebuild_db = [''color'']"
  by (simp add: all_attribute_keys_def rebuild_db_def empty_db_def shirt_def coat_def hat_def
      scarf_def boot_def)

lemma rebuild_request_filters:
  "collect_filters (py_nonblank digits_only) [''color''] is_price_key special_keys
     rebuild_request (query_keys rebuild_request) no_filters
   = \<lparr>multi_value_filters = [(''color'', [''blue''])],
      price_filters = [(''price_toman__lte'', ''200000'')],
      special_filters = [(''is_active'', ''false''), (''category'', ''1''), (''q'', ''shirt''),
                         (''is_new_arrival'', ''true'')]\<rparr>"
  by (simp add: rebuild_request_def no_filters_def is_price_key_def special_keys_def
      query_get_def query_getlist_def sample_defs)

lemma rebuild_request_result:
  "ProductsFilterView_get digits_only rebuild_db rebuild_request = Inr [coat]"
  unfolding ProductsFilterView_get_def rebuild_db_keys rebuild_request_filters
  by (simp add: filter_products_def apply_category_def category_fits_def fits_int64_def
      apply_search_def truthy_def apply_new_arrival_def apply_is_active_def
      is_active_false_def icontains_def order_by_created_desc_def all_matching_ids_def
      matching_ids_legacy_def matching_ids_new_def matching_ids_custom_def sample_defs
      rebuild_db_def empty_db_def shirt_def coat_def hat_def scarf_def boot_def)

lemma rebuild_request_is_active:
  "special_param digits_only rebuild_db rebuild_request ''is_active'' = Some ''false''"
  by (simp add: special_param_def rebuild_db_keys rebuild_request_def is_price_key_def
      special_keys_def query_get_def query_getlist_def sample_defs)

theorem inactive_request_result_witness:
  "special_param digits_only rebuild_db rebuild_request ''is_active'' = Some ''false'' \<and>
   ProductsFilterView_get digits_only rebuild_db rebuild_request = Inr [coat] \<and>
   order_by_created_desc
     (filter (inactive_selection digits_only rebuild_db rebuild_request) (products rebuild_db))
     = [coat] \<and>
   filter (\<lambda>p. \<not> p_is_active p) (products rebuild_db) = [coat, hat, scarf, boot] \<and>
   \<not> icontains (p_name coat) ''shirt'' \<and> \<not> p_is_new_arrival coat"
proof -
  have f: "lower ''false'' \<in> set [''false'', ''0'', ''no'']"
    by (simp add: lower_def lower_char_def)
  from inactive_request_result [OF rebuild_request_is_active f, of "[coat]"]
    rebuild_request_result
  have "order_by_created_desc
     (filter (inactive_selection digits_only rebuild_db rebuild_request) (products rebuild_db))
     = [coat]"
    by simp
  moreover have "filter (\<lambda>p. \<not> p_is_active p) (products rebuild_db) = [coat, hat, scarf, boot]"
    by (simp add: rebuild_db_def empty_db_def shirt_def coat_def hat_def scarf_def boot_def)
  moreover have "\<not> icontains (p_name coat) ''shirt''" "\<not> p_is_new_arrival coat"
    by (simp_all add: icontains_def lower_def lower_char_def coat_def shirt_def)
  ultimately show ?thesis
    using rebuild_request_is_active rebuild_request_result by simp
qed

text \<open>
  Only the inactive \<open>coat\<close> carries the key \<open>color\<close>, with the value \<open>blue\<close>. The
  request \<open>is_active=false&color=green\<close> is answered with the coat: the attribute
  filter of the request is not applied.
\<close>

theorem inactive_attribute_counterexample:
  "map (\<lambda>r. (pa_product r, pa_key r, pa_value r)) (legacy_attributes inactive_only_db)
     = [(p_id coat, ''color'', ''blue'')] \<and>
   all_attribute_keys inactive_only_db = [] \<and>
   ProductsFilterView_get digits_only inactive_only_db
     [(''is_active'', ''false''), (''color'', ''green'')] = Inr [coat]"
proof -
  have keys: "all_attribute_keys inactive_only_db = []"
    by (simp add: all_attribute_keys_def inactive_only_db_def empty_db_def shirt_def coat_def)
  have "ProductsFilterView_get digits_only inactive_only_db
     [(''is_active'', ''false''), (''color'', ''green'')] = Inr [coat]"
    unfolding ProductsFilterView_get_def keys
    by (simp add: no_filters_def is_price_key_def special_keys_def query_get_def
        query_getlist_def filter_products_def apply_category_def category_fits_def
        apply_search_def truthy_def apply_new_arrival_def apply_is_active_def
        is_active_false_def order_by_created_desc_def sample_defs inactive_only_db_def
        empty_db_def shirt_def coat_def)
  with keys show ?thesis
    by (simp add: inactive_only_db_def empty_db_def coat_def shirt_def)
qed

section \<open>Pagination: page size cap and out-of-range pages\<close>








end
